theory Spec2Isabelle
  imports Complex_Main "HOL-Library.Multiset"
begin

section \<open>Errors and results\<close>

text \<open>
  Every \<^verbatim>\<open>raise\<close> of \<^verbatim>\<open>moleculekit/molecule.py\<close> that the modelled
  operations can reach is a constructor. The numpy failures are \<open>IndexError\<close> (an
  index outside an array, a boolean mask of the wrong length) and \<open>ValueError\<close> (shapes
  that do not fit). The source raises \<^verbatim>\<open>NameError\<close> and \<^verbatim>\<open>RuntimeError\<close>
  with different messages; each message is a constructor of its own:
  \<^item> \<open>FrameOutOfRange\<close>: \<^verbatim>\<open>NameError("frame out of range")\<close> of the \<^verbatim>\<open>frame\<close> getter;
  \<^item> \<open>MultipleFrames\<close>: \<^verbatim>\<open>NameError('Cannot concatenate molecules which contain multiple frames.')\<close>;
  \<^item> \<open>InsertFailed e\<close>: \<^verbatim>\<open>NameError('Failed to insert/append molecule ...')\<close> wrapping \<open>e\<close>;
  \<^item> \<open>FilterNeedsMask\<close>: \<^verbatim>\<open>NameError('Filter can only work with string inputs or boolean arrays')\<close>;
  \<^item> \<open>AtomNotUnique\<close>: \<^verbatim>\<open>RuntimeError('The atom corresponding to ... is no longer unique ...')\<close>
    (the spec's SelectionAmbiguous);
  \<^item> \<open>AtomNotPresent\<close>: \<^verbatim>\<open>RuntimeError('The atom corresponding to ... is no longer present ...')\<close>
    (the spec's SelectionEmpty);
  \<^item> \<open>SelOrIdx\<close>, \<open>MoreThanOneAtom\<close>, \<open>NoAtomMatched\<close>: the three
    \<^verbatim>\<open>RuntimeError\<close>s of \<^verbatim>\<open>UniqueAtomID.fromMolecule\<close>;
  \<^item> \<open>AttributeError\<close>: reading an attribute a \<^verbatim>\<open>UniqueAtomID\<close> was built without;
  \<^item> \<open>NonUniqueNames\<close>: \<^verbatim>\<open>RuntimeError('Cannot reorder atoms due to non-unique atom names in molecule.')\<close>;
  \<^item> \<open>TopologyInconsistencyError\<close>: the class of that name (the spec's StructuralMismatch
    and FieldConflict), with the place it is raised at;
  \<^item> \<open>KeepAndDrop\<close>: \<^verbatim>\<open>RuntimeError('Cannot both drop and keep trajectories ...')\<close>;
  \<^item> \<open>AssertionError\<close>: the \<^verbatim>\<open>assert\<close> of \<^verbatim>\<open>calculateUniqueBonds\<close>.
\<close>

datatype mismatch = DifferentNames | DifferentShape | DifferentInfo

datatype error =
    IndexError
  | ValueError
  | FrameOutOfRange
  | MultipleFrames
  | InsertFailed error
  | FilterNeedsMask
  | AtomNotUnique
  | AtomNotPresent
  | SelOrIdx
  | MoreThanOneAtom
  | NoAtomMatched
  | AttributeError
  | NonUniqueNames
  | TopologyInconsistencyError mismatch
  | KeepAndDrop
  | AssertionError

datatype 'a result = Ok 'a | Raise error

text \<open>
  A Python method mutates \<^verbatim>\<open>self\<close> in place, and an exception leaves behind what
  was mutated before it. A method is therefore a function from the object to a result
  and the object as the method left it, on the error path too. A \<^verbatim>\<open>for\<close> loop
  over a fixed tuple is \<open>for_each\<close>: it stops at the first step that raises.
\<close>

fun for_each :: "'k list \<Rightarrow> ('k \<Rightarrow> 's \<Rightarrow> error option \<times> 's) \<Rightarrow> 's \<Rightarrow> error option \<times> 's" where
  "for_each [] body s = (None, s)"
| "for_each (k # ks) body s =
     (case body k s of
        (None, s') \<Rightarrow> for_each ks body s'
      | (Some e, s') \<Rightarrow> (Some e, s'))"

section \<open>The data model of \<^verbatim>\<open>class Molecule\<close>\<close>

text \<open>
  \<^verbatim>\<open>Molecule._atom_fields\<close>, in the order of the tuple, and the index-valued members of
  \<^verbatim>\<open>Molecule._connectivity_fields\<close> (\<^verbatim>\<open>bondtype\<close>, the fifth member, holds labels and
  is a field of its own below).
\<close>

datatype afield =
    RECORD | SERIAL | NAME | ALTLOC | RESNAME | CHAIN | RESID | INSERTION
  | OCCUPANCY | BETA | SEGID | ELEMENT | CHARGE | MASSES | ATOMTYPE

datatype cfield = BONDS | ANGLES | DIHEDRALS | IMPROPERS

definition atom_fields :: "afield list" where
  "atom_fields = [RECORD, SERIAL, NAME, ALTLOC, RESNAME, CHAIN, RESID, INSERTION,
                  OCCUPANCY, BETA, SEGID, ELEMENT, CHARGE, MASSES, ATOMTYPE]"

text \<open>
  \<^verbatim>\<open>Molecule._dtypes\<close>: an \<^verbatim>\<open>object\<close> column holds strings, \<^verbatim>\<open>np.int\<close> columns
  integers, \<^verbatim>\<open>np.float32\<close> columns numbers (modelled as reals: the operations here
  only store, move and compare them with zero).
\<close>

datatype aval = StrV string | IntV int | FltV real

fun dtype_object :: "afield \<Rightarrow> bool" where
  "dtype_object SERIAL = False"
| "dtype_object RESID = False"
| "dtype_object OCCUPANCY = False"
| "dtype_object BETA = False"
| "dtype_object CHARGE = False"
| "dtype_object MASSES = False"
| "dtype_object k = True"

text \<open>
  \<^verbatim>\<open>coords\<close> is an array of shape (atoms, 3, frames): one row per atom, holding three
  lists of one number per frame. The number of frames is kept beside the rows, since an
  array of no atoms still has one (\<^verbatim>\<open>np.empty((0, 3, 0))\<close>, or (0, 3, F) after every
  atom was removed).
\<close>

record coords_t =
  crows :: "real list list list"
  cframes :: nat

text \<open>An entry of \<^verbatim>\<open>fileloc\<close>: a (file, frame) pair, or a list of entries.\<close>

datatype floc = Loc string nat | Nested "floc list"

text \<open>
  The object's \<^verbatim>\<open>__dict__\<close>. \<open>atomf\<close> and \<open>conn\<close> are the dictionary restricted
  to the per-atom columns and to the index arrays, which the source reads and writes by
  name in loops (\<^verbatim>\<open>self.__dict__[k]\<close>). A row of \<^verbatim>\<open>bonds\<close> has two atom indices,
  of \<^verbatim>\<open>angles\<close> three, of \<^verbatim>\<open>dihedrals\<close> and \<^verbatim>\<open>impropers\<close> four. \<open>box\<close> and
  \<open>boxangles\<close> have shape (3, frames): three lists. \<open>frame_ptr\<close> is \<^verbatim>\<open>_frame\<close>.
  \<^verbatim>\<open>ssbonds\<close>, \<^verbatim>\<open>reps\<close> and \<^verbatim>\<open>_tempreps\<close> are left out: no operation modelled
  here reads or writes them.
\<close>

record molecule =
  atomf :: "afield \<Rightarrow> aval list"
  coords :: coords_t
  box :: "real list list"
  boxangles :: "real list list"
  conn :: "cfield \<Rightarrow> nat list list"
  bondtype :: "string list"
  frame_ptr :: int
  fileloc :: "floc list"
  step :: "int list"
  time :: "real list"
  crystalinfo :: "string option"
  topoloc :: "string option"
  viewname :: "string option"

text \<open>\<^verbatim>\<open>Molecule.__init__\<close> with no file: every array empty with the shape of \<^verbatim>\<open>_dims\<close>.\<close>

definition Molecule :: "string option \<Rightarrow> molecule" where
  "Molecule nm =
     \<lparr> atomf = (\<lambda>k. []), coords = \<lparr> crows = [], cframes = 0 \<rparr>,
       box = [[], [], []], boxangles = [[], [], []],
       conn = (\<lambda>f. []), bondtype = [], frame_ptr = 0,
       fileloc = [], step = [], time = [],
       crystalinfo = None, topoloc = None, viewname = nm \<rparr>"

definition numFrames :: "molecule \<Rightarrow> nat" where
  "numFrames m = cframes (coords m)"

definition numAtomsTopo :: "molecule \<Rightarrow> nat" where
  "numAtomsTopo m = length (atomf m RECORD)"

definition numAtomsTraj :: "molecule \<Rightarrow> nat" where
  "numAtomsTraj m = length (crows (coords m))"

definition numAtoms :: "molecule \<Rightarrow> nat" where
  "numAtoms m = (let natoms = numAtomsTopo m in if natoms = 0 then numAtomsTraj m else natoms)"

text \<open>The \<^verbatim>\<open>frame\<close> property: the getter raises when \<^verbatim>\<open>_frame\<close> is outside the frames.\<close>

definition get_frame :: "molecule \<Rightarrow> nat result" where
  "get_frame m =
     (if frame_ptr m < 0 \<or> int (numFrames m) \<le> frame_ptr m then Raise FrameOutOfRange
      else Ok (nat (frame_ptr m)))"

definition set_frame :: "int \<Rightarrow> molecule \<Rightarrow> error option \<times> molecule" where
  "set_frame v m =
     (if v < 0 \<or> (numFrames m \<noteq> 0 \<and> int (numFrames m) \<le> v) then (Some FrameOutOfRange, m)
      else (None, m\<lparr>frame_ptr := v\<rparr>))"

text \<open>\<^verbatim>\<open>Molecule._empty\<close> for a per-atom column and for \<^verbatim>\<open>coords\<close>.\<close>

definition empty_field :: "nat \<Rightarrow> afield \<Rightarrow> aval list" where
  "empty_field n k =
     (if k = SERIAL then map (\<lambda>i. IntV (int i)) [1..<n + 1]
      else if k = RECORD then replicate n (StrV ''ATOM'')
      else if dtype_object k then replicate n (StrV '''')
      else if k = RESID then replicate n (IntV 0)
      else replicate n (FltV 0))"

definition empty_coords :: "nat \<Rightarrow> coords_t" where
  "empty_coords n = \<lparr> crows = replicate n [[], [], []], cframes = 0 \<rparr>"

definition emptyTopo :: "nat \<Rightarrow> molecule \<Rightarrow> molecule" where
  "emptyTopo n m = m\<lparr>atomf := (\<lambda>k. empty_field n k)\<rparr>"

definition emptyTraj :: "nat \<Rightarrow> molecule \<Rightarrow> molecule" where
  "emptyTraj n m = m\<lparr>coords := empty_coords n, box := [[], [], []]\<rparr>"

text \<open>\<^verbatim>\<open>Molecule.empty\<close>.\<close>

definition empty_mol :: "nat \<Rightarrow> molecule \<Rightarrow> molecule" where
  "empty_mol n m = emptyTraj n (emptyTopo n m)"

section \<open>numpy on lists\<close>

text \<open>
  \<^verbatim>\<open>np.delete(a, idx, axis=0)\<close> with an integer index array: the rows not named by
  \<open>idx\<close>, in their order; an index twice is the same as once; an index outside the
  array is an \<^verbatim>\<open>IndexError\<close> (numpy 1.19 and later). Indices are natural numbers here:
  numpy's counting from the end for negative ones is not modelled.
\<close>

definition np_delete :: "'a list \<Rightarrow> nat list \<Rightarrow> 'a list result" where
  "np_delete a idx =
     (if \<exists>i \<in> set idx. length a \<le> i then Raise IndexError
      else Ok (map (\<lambda>i. a ! i) (filter (\<lambda>i. i \<notin> set idx) [0..<length a])))"

text \<open>\<^verbatim>\<open>np.where(s)[0]\<close> and \<^verbatim>\<open>a[s]\<close> for a boolean mask \<open>s\<close>.\<close>

definition np_where :: "bool list \<Rightarrow> nat list" where
  "np_where s = filter (\<lambda>i. s ! i) [0..<length s]"

definition mask_select :: "bool list \<Rightarrow> 'a list \<Rightarrow> 'a list" where
  "mask_select s a = map snd (filter fst (zip s a))"

text \<open>\<^verbatim>\<open>a[order]\<close> for an integer index array.\<close>

definition take_rows :: "'a list \<Rightarrow> nat list \<Rightarrow> 'a list result" where
  "take_rows a order =
     (if \<exists>i \<in> set order. length a \<le> i then Raise IndexError
      else Ok (map (\<lambda>i. a ! i) order))"

section \<open>Selections\<close>

text \<open>
  What a caller passes as a selection: \<^verbatim>\<open>None\<close> or \<^verbatim>\<open>'all'\<close>, a selection
  string, a boolean mask, or an array of atom indices. A string is evaluated by
  \<^verbatim>\<open>moleculekit.vmdparser.vmdselection\<close>, which is outside this file: it is the
  parameter \<open>vmd\<close>, from the molecule and the string to a mask. \<^verbatim>\<open>atomselect\<close>
  is modelled with \<^verbatim>\<open>strict=False\<close>, its default and what every caller here uses.
\<close>

datatype selection = SelAll | SelStr string | SelMask "bool list" | SelIdx "nat list"

datatype selected = MaskR "bool list" | IdxR "nat list"

type_synonym vmdselection = "molecule \<Rightarrow> string \<Rightarrow> bool list"

definition atomselect :: "vmdselection \<Rightarrow> molecule \<Rightarrow> selection \<Rightarrow> bool \<Rightarrow> selected result" where
  "atomselect vmd m sel indexes =
     (case (case sel of
              SelAll \<Rightarrow> Ok (MaskR (replicate (numAtoms m) True))
            | SelStr e \<Rightarrow> (case get_frame m of Raise err \<Rightarrow> Raise err | Ok fr \<Rightarrow> Ok (MaskR (vmd m e)))
            | SelMask b \<Rightarrow> Ok (MaskR b)
            | SelIdx i \<Rightarrow> Ok (IdxR i)) of
        Raise err \<Rightarrow> Raise err
      | Ok (MaskR b) \<Rightarrow> if indexes then Ok (IdxR (np_where b)) else Ok (MaskR b)
      | Ok (IdxR i) \<Rightarrow> Ok (IdxR i))"

text \<open>
  The index array behind a result of \<^verbatim>\<open>atomselect\<close>. With \<^verbatim>\<open>indexes=True\<close> the
  result is an index array already.
\<close>

fun indexes_of :: "selected \<Rightarrow> nat list" where
  "indexes_of (IdxR i) = i"
| "indexes_of (MaskR b) = np_where b"

section \<open>\<^verbatim>\<open>Molecule._updateBondsAnglesDihedrals\<close> and \<^verbatim>\<open>Molecule.remove\<close>\<close>

text \<open>
  \<^verbatim>\<open>map[map == 1] = values\<close>: the entries equal to 1, in their order, take the
  values in theirs.
\<close>

fun assign_ones :: "int list \<Rightarrow> int list \<Rightarrow> int list" where
  "assign_ones [] vs = []"
| "assign_ones (x # xs) [] = x # xs"
| "assign_ones (x # xs) (v # vs) =
     (if x = 1 then v # assign_ones xs vs else x # assign_ones xs (v # vs))"

text \<open>
  The translation table:
  \<^verbatim>\<open>map = np.ones(self.numAtoms, dtype=int); map[idx] = -1;
  map[map == 1] = np.arange(self.numAtoms - len(idx))\<close>.
  \<^verbatim>\<open>map[idx] = -1\<close> raises for an index outside the table. The last assignment needs
  as many values as there are entries left at 1, which an index given twice breaks
  (\<^verbatim>\<open>ValueError\<close>); numpy accepts a single value for any number of entries.
\<close>

definition removal_map :: "nat \<Rightarrow> nat list \<Rightarrow> int list result" where
  "removal_map n idx =
     (if \<exists>i \<in> set idx. n \<le> i then Raise IndexError
      else let marked = fold (\<lambda>i mp. mp[i := - 1]) idx (replicate n 1);
               vals = map int [0..<n - length idx]
           in if length vals = length (filter (\<lambda>x. x = 1) marked) then Ok (assign_ones marked vals)
              else if length vals = 1 then Ok (map (\<lambda>x. if x = 1 then 0 else x) marked)
              else Raise ValueError)"

text \<open>\<^verbatim>\<open>tempdata[:] = map[tempdata[:]]\<close>: every endpoint looked up in the table.\<close>

definition remap_rows :: "int list \<Rightarrow> nat list list \<Rightarrow> int list list result" where
  "remap_rows mp rs =
     (if \<exists>r \<in> set rs. \<exists>e \<in> set r. length mp \<le> e then Raise IndexError
      else Ok (map (map (\<lambda>e. mp ! e)) rs))"

text \<open>
  One round of the loop over \<^verbatim>\<open>('bonds', 'angles', 'dihedrals', 'impropers')\<close>.
  \<^verbatim>\<open>self.bondtype[stays]\<close> raises when the mask and \<^verbatim>\<open>bondtype\<close> differ in length;
  the rows of the field are already replaced then.
\<close>

definition update_field :: "int list \<Rightarrow> cfield \<Rightarrow> molecule \<Rightarrow> error option \<times> molecule" where
  "update_field mp field m =
     (if conn m field = [] then (None, m)
      else case remap_rows mp (conn m field) of
        Raise e \<Rightarrow> (Some e, m)
      | Ok tempdata \<Rightarrow>
          let stays = map (\<lambda>r. - 1 \<notin> set r) tempdata;
              m1 = m\<lparr>conn := (conn m)(field := map (map nat) (mask_select stays tempdata))\<rparr>
          in if field = BONDS \<and> bondtype m \<noteq> [] then
               (if length (bondtype m) = length stays
                then (None, m1\<lparr>bondtype := mask_select stays (bondtype m)\<rparr>)
                else (Some IndexError, m1))
             else (None, m1))"

definition updateBondsAnglesDihedrals :: "nat list \<Rightarrow> molecule \<Rightarrow> error option \<times> molecule" where
  "updateBondsAnglesDihedrals idx m =
     (if idx = [] then (None, m)
      else if conn m BONDS = [] \<and> conn m DIHEDRALS = [] \<and> conn m IMPROPERS = [] \<and> conn m ANGLES = []
      then (None, m)
      else case removal_map (numAtoms m) idx of
        Raise e \<Rightarrow> (Some e, m)
      | Ok mp \<Rightarrow> for_each [BONDS, ANGLES, DIHEDRALS, IMPROPERS] (update_field mp) m)"

text \<open>
  \<^verbatim>\<open>Molecule.remove\<close>: the connectivity is renumbered first, then the rows are deleted
  from every member of \<^verbatim>\<open>_atom_and_coord_fields\<close> (the per-atom columns, then
  \<^verbatim>\<open>coords\<close>). It returns the removed indices.
\<close>

definition delete_field :: "nat list \<Rightarrow> afield \<Rightarrow> molecule \<Rightarrow> error option \<times> molecule" where
  "delete_field sel k m =
     (case np_delete (atomf m k) sel of
        Raise e \<Rightarrow> (Some e, m)
      | Ok v \<Rightarrow> (None, m\<lparr>atomf := (atomf m)(k := v)\<rparr>))"

definition delete_coords :: "nat list \<Rightarrow> molecule \<Rightarrow> error option \<times> molecule" where
  "delete_coords sel m =
     (case np_delete (crows (coords m)) sel of
        Raise e \<Rightarrow> (Some e, m)
      | Ok v \<Rightarrow> (None, m\<lparr>coords := (coords m)\<lparr>crows := v\<rparr>\<rparr>))"

definition remove_mol :: "vmdselection \<Rightarrow> selection \<Rightarrow> molecule \<Rightarrow> nat list result \<times> molecule" where
  "remove_mol vmd selection m =
     (case atomselect vmd m selection True of
        Raise e \<Rightarrow> (Raise e, m)
      | Ok s \<Rightarrow>
          let sel = indexes_of s in
          (case updateBondsAnglesDihedrals sel m of
             (Some e, m1) \<Rightarrow> (Raise e, m1)
           | (None, m1) \<Rightarrow>
               (case for_each atom_fields (delete_field sel) m1 of
                  (Some e, m2) \<Rightarrow> (Raise e, m2)
                | (None, m2) \<Rightarrow>
                    (case delete_coords sel m2 of
                       (Some e, m3) \<Rightarrow> (Raise e, m3)
                     | (None, m3) \<Rightarrow> (Ok sel, m3)))))"

section \<open>\<^verbatim>\<open>Molecule.insert\<close> and \<^verbatim>\<open>Molecule.append\<close>\<close>

text \<open>
  The local function \<^verbatim>\<open>insertappend\<close>, for a per-atom column and for \<^verbatim>\<open>coords\<close>
  (whose \<^verbatim>\<open>size\<close> is 0 when it has no atom or no frame). \<^verbatim>\<open>np.insert(data1, index,
  data2, axis=0)\<close> puts the rows of \<open>data2\<close> before row \<open>index\<close> and raises
  \<^verbatim>\<open>IndexError\<close> for an index beyond the end; both numpy calls raise
  \<^verbatim>\<open>ValueError\<close> when the frame counts of two coordinate arrays differ.
\<close>

definition insertappend :: "nat \<Rightarrow> 'a list \<Rightarrow> 'a list \<Rightarrow> bool \<Rightarrow> 'a list result" where
  "insertappend index data1 data2 appending =
     (if data1 = [] then Ok data2
      else if data2 = [] then Ok data1
      else if appending then Ok (data1 @ data2)
      else if length data1 < index then Raise IndexError
      else Ok (take index data1 @ data2 @ drop index data1))"

definition coords_size :: "coords_t \<Rightarrow> nat" where
  "coords_size c = length (crows c) * 3 * cframes c"

definition insertappend_coords :: "nat \<Rightarrow> coords_t \<Rightarrow> coords_t \<Rightarrow> bool \<Rightarrow> coords_t result" where
  "insertappend_coords index data1 data2 appending =
     (if coords_size data1 = 0 then Ok data2
      else if coords_size data2 = 0 then Ok data1
      else if appending then
        (if cframes data1 = cframes data2
         then Ok (data1\<lparr>crows := crows data1 @ crows data2\<rparr>)
         else Raise ValueError)
      else if length (crows data1) < index then Raise IndexError
      else if cframes data1 = cframes data2
        then Ok (data1\<lparr>crows := take index (crows data1) @ crows data2 @ drop index (crows data1)\<rparr>)
        else Raise ValueError)"

text \<open>
  \<^verbatim>\<open>_getResidueIndexesByAtom(mol, idx)\<close>, given \<open>seqid\<close>, the result of
  \<^verbatim>\<open>moleculekit.util.sequenceID(mol.resid)\<close> (a function outside this file): the mask
  of the atoms whose residue holds an atom of \<open>idx\<close>.
\<close>

definition getResidueIndexesByAtom :: "nat list \<Rightarrow> nat list \<Rightarrow> bool list result" where
  "getResidueIndexesByAtom seqid idx =
     (if \<exists>i \<in> set idx. length seqid \<le> i then Raise IndexError
      else Ok (map (\<lambda>r. r \<in> set (map (\<lambda>i. seqid ! i) idx)) seqid))"

text \<open>
  One round of the loop over \<^verbatim>\<open>_atom_and_coord_fields\<close> in \<^verbatim>\<open>insert\<close>, for a
  per-atom column (\<^verbatim>\<open>serial\<close> is skipped) and for \<^verbatim>\<open>coords\<close>, the last member.
\<close>

definition insert_field :: "molecule \<Rightarrow> nat \<Rightarrow> bool \<Rightarrow> afield \<Rightarrow> molecule \<Rightarrow> error option \<times> molecule" where
  "insert_field mol index appending k self =
     (if k = SERIAL then (None, self)
      else let data2 = (if atomf mol k = [] then empty_field (numAtoms mol) k else atomf mol k) in
        case insertappend index (atomf self k) data2 appending of
          Raise e \<Rightarrow> (Some e, self)
        | Ok v \<Rightarrow> (None, self\<lparr>atomf := (atomf self)(k := v)\<rparr>))"

definition insert_coords :: "molecule \<Rightarrow> nat \<Rightarrow> bool \<Rightarrow> molecule \<Rightarrow> error option \<times> molecule" where
  "insert_coords mol index appending self =
     (let data2 = (if coords_size (coords mol) = 0 then empty_coords (numAtoms mol) else coords mol) in
        case insertappend_coords index (coords self) data2 appending of
          Raise e \<Rightarrow> (Some e, self)
        | Ok v \<Rightarrow> (None, self\<lparr>coords := v\<rparr>))"

text \<open>
  The body of the \<^verbatim>\<open>try\<close> block of \<^verbatim>\<open>insert\<close>. Atom indices are natural numbers:
  the wrap-around of \<^verbatim>\<open>newbonds += index\<close> in \<^verbatim>\<open>uint32\<close> is not modelled. The
  inserted molecule is a value of its own: \<^verbatim>\<open>self.insert(self, index)\<close>, where the shift
  of \<^verbatim>\<open>self.bonds\<close> in place shows in \<^verbatim>\<open>mol.bonds\<close>, is not modelled.
\<close>

definition insert_body :: "molecule \<Rightarrow> nat \<Rightarrow> bool \<Rightarrow> molecule \<Rightarrow> error option \<times> molecule" where
  "insert_body mol index appending self =
     (if coords_size (coords self) \<noteq> 0 \<and> (cframes (coords self) \<noteq> 1 \<or> cframes (coords mol) \<noteq> 1)
      then (Some MultipleFrames, self)
      else
        let self1 = (if conn self BONDS \<noteq> []
                     then self\<lparr>conn := (conn self)(BONDS :=
                            map (map (\<lambda>e. if index \<le> e then e + numAtoms mol else e)) (conn self BONDS))\<rparr>
                     else self);
            self2 = (if conn mol BONDS \<noteq> [] then
                       let newbonds = map (map (\<lambda>e. e + index)) (conn mol BONDS) in
                       if conn self1 BONDS \<noteq> []
                       then self1\<lparr>conn := (conn self1)(BONDS := conn self1 BONDS @ newbonds),
                                  bondtype := bondtype self1 @ bondtype mol\<rparr>
                       else self1\<lparr>conn := (conn self1)(BONDS := newbonds), bondtype := bondtype mol\<rparr>
                     else self1)
        in case for_each atom_fields (insert_field mol index appending) self2 of
             (Some e, self3) \<Rightarrow> (Some e, self3)
           | (None, self3) \<Rightarrow>
               (case insert_coords mol index appending self3 of
                  (Some e, self4) \<Rightarrow> (Some e, self4)
                | (None, self4) \<Rightarrow>
                    let self5 = self4\<lparr>atomf := (atomf self4)(SERIAL :=
                                  map (\<lambda>i. IntV (int i)) [1..<numAtoms self4 + 1])\<rparr>
                    in (None, self5\<lparr>box := replicate 3 (replicate (numFrames self5) 0),
                                    boxangles := replicate 3 (replicate (numFrames self5) 0)\<rparr>)))"

text \<open>
  \<^verbatim>\<open>Molecule.insert(mol, index, collisions, coldist)\<close>. With \<^verbatim>\<open>collisions\<close> set, the
  source asks \<^verbatim>\<open>scipy\<close> for the atoms of \<open>mol\<close> closer than \<^verbatim>\<open>coldist\<close> to an atom
  of \<open>self\<close> and \<^verbatim>\<open>sequenceID\<close> for the residues: \<open>collisions = Some (idx2, seqid)\<close>
  gives both answers, \<open>None\<close> is \<^verbatim>\<open>collisions=0\<close>. The handler
  \<^verbatim>\<open>except Exception as err: self = backup; raise NameError(...)\<close> binds the local name
  \<^verbatim>\<open>self\<close> to the copy and raises: the caller's object stays as the \<^verbatim>\<open>try\<close> block
  left it, so the state returned with \<open>InsertFailed\<close> is that of the block.
\<close>

definition insert_mol ::
  "vmdselection \<Rightarrow> molecule \<Rightarrow> nat \<Rightarrow> (nat list \<times> nat list) option \<Rightarrow> molecule \<Rightarrow> error option \<times> molecule" where
  "insert_mol vmd mol index collisions self =
     (let appending = (index = numAtoms self) in
      case (case collisions of
              None \<Rightarrow> Ok mol
            | Some (idx2, seqid) \<Rightarrow>
                (case get_frame self of Raise e \<Rightarrow> Raise e | Ok f1 \<Rightarrow>
                 case get_frame mol of Raise e \<Rightarrow> Raise e | Ok f2 \<Rightarrow>
                 case getResidueIndexesByAtom seqid idx2 of Raise e \<Rightarrow> Raise e | Ok torem \<Rightarrow>
                 case remove_mol vmd (SelMask torem) mol of
                   (Raise e, mol') \<Rightarrow> Raise e
                 | (Ok removed, mol') \<Rightarrow> Ok mol')) of
        Raise e \<Rightarrow> (Some e, self)
      | Ok mol1 \<Rightarrow>
          (case insert_body mol1 index appending self of
             (Some e, self') \<Rightarrow> (Some (InsertFailed e), self')
           | (None, self') \<Rightarrow> (None, self')))"

definition append_mol ::
  "vmdselection \<Rightarrow> molecule \<Rightarrow> (nat list \<times> nat list) option \<Rightarrow> molecule \<Rightarrow> error option \<times> molecule" where
  "append_mol vmd mol collisions self = insert_mol vmd mol (numAtoms self) collisions self"

section \<open>\<^verbatim>\<open>Molecule.filter\<close> and \<^verbatim>\<open>Molecule.deleteBonds\<close>\<close>

text \<open>
  \<^verbatim>\<open>filter\<close>: \<^verbatim>\<open>np.all(s)\<close> of an index array is true when no index is 0; such a
  selection does nothing, any other index array is refused as not boolean.
\<close>

definition filter_mol :: "vmdselection \<Rightarrow> selection \<Rightarrow> molecule \<Rightarrow> nat list result \<times> molecule" where
  "filter_mol vmd sel m =
     (case atomselect vmd m sel False of
        Raise e \<Rightarrow> (Raise e, m)
      | Ok (MaskR s) \<Rightarrow> if list_all (\<lambda>b. b) s then (Ok [], m) else remove_mol vmd (SelMask (map Not s)) m
      | Ok (IdxR i) \<Rightarrow> if 0 \<notin> set i then (Ok [], m) else (Raise FilterNeedsMask, m))"

text \<open>
  \<^verbatim>\<open>deleteBonds\<close>: \<^verbatim>\<open>self.bonds[:, 0]\<close> and \<^verbatim>\<open>self.bonds[:, 1]\<close> are the two
  endpoints of each row. \<^verbatim>\<open>np.delete(self.bondtype, idx)\<close> raises when a row to
  delete has no label; the rows of \<^verbatim>\<open>bonds\<close> are deleted then.
\<close>

definition deleteBonds :: "vmdselection \<Rightarrow> selection \<Rightarrow> bool \<Rightarrow> molecule \<Rightarrow> error option \<times> molecule" where
  "deleteBonds vmd sel intr m =
     (case atomselect vmd m sel True of
        Raise e \<Rightarrow> (Some e, m)
      | Ok s \<Rightarrow>
          let sel' = indexes_of s in
          if sel' = [] then (None, m)
          else
            let todel = map (\<lambda>b. if intr then b ! 0 \<in> set sel' \<or> b ! 1 \<in> set sel'
                                  else b ! 0 \<in> set sel' \<and> b ! 1 \<in> set sel') (conn m BONDS);
                idx = np_where todel
            in case np_delete (conn m BONDS) idx of
                 Raise e \<Rightarrow> (Some e, m)
               | Ok bonds' \<Rightarrow>
                   let m1 = m\<lparr>conn := (conn m)(BONDS := bonds')\<rparr> in
                   (case np_delete (bondtype m) idx of
                      Raise e \<Rightarrow> (Some e, m1)
                    | Ok bt' \<Rightarrow> (None, m1\<lparr>bondtype := bt'\<rparr>)))"

section \<open>\<^verbatim>\<open>Molecule.reorderAtoms\<close>\<close>

text \<open>
  \<^verbatim>\<open>order = np.array(order)\<close> of an empty list is an array of floats, which numpy
  refuses as an index (\<^verbatim>\<open>IndexError\<close>).
\<close>

definition index_by :: "'a list \<Rightarrow> nat list \<Rightarrow> 'a list result" where
  "index_by a order = (if order = [] then Raise IndexError else take_rows a order)"

definition reorder_field :: "nat list \<Rightarrow> afield \<Rightarrow> molecule \<Rightarrow> error option \<times> molecule" where
  "reorder_field order k m =
     (if atomf m k = [] then (None, m)
      else case index_by (atomf m k) order of
        Raise e \<Rightarrow> (Some e, m)
      | Ok v \<Rightarrow> (None, m\<lparr>atomf := (atomf m)(k := v)\<rparr>))"

definition reorder_coords :: "nat list \<Rightarrow> molecule \<Rightarrow> error option \<times> molecule" where
  "reorder_coords order m =
     (if crows (coords m) = [] then (None, m)
      else case index_by (crows (coords m)) order of
        Raise e \<Rightarrow> (Some e, m)
      | Ok v \<Rightarrow> (None, m\<lparr>coords := (coords m)\<lparr>crows := v\<rparr>\<rparr>))"

text \<open>
  \<^verbatim>\<open>inverseorder = np.array([np.where(order == i)[0][0] for i in np.arange(len(order))])\<close>:
  the first position of each \<open>i\<close> in \<open>order\<close>; \<^verbatim>\<open>[0][0]\<close> raises when there is none.
\<close>

fun first_index_of :: "'a list \<Rightarrow> 'a \<Rightarrow> nat option" where
  "first_index_of [] i = None"
| "first_index_of (x # xs) i = (if x = i then Some 0 else map_option Suc (first_index_of xs i))"

definition inverse_order :: "nat list \<Rightarrow> nat list result" where
  "inverse_order order =
     (if \<exists>i \<in> set [0..<length order]. first_index_of order i = None then Raise IndexError
      else Ok (map (\<lambda>i. the (first_index_of order i)) [0..<length order]))"

text \<open>\<^verbatim>\<open>inverseorder[self.__dict__[field]]\<close>: every endpoint looked up.\<close>

definition reorder_conn :: "nat list \<Rightarrow> cfield \<Rightarrow> molecule \<Rightarrow> error option \<times> molecule" where
  "reorder_conn inverseorder field m =
     (if conn m field = [] then (None, m)
      else if \<exists>r \<in> set (conn m field). \<exists>e \<in> set r. length inverseorder \<le> e then (Some IndexError, m)
      else (None, m\<lparr>conn := (conn m)(field := map (map (\<lambda>e. inverseorder ! e)) (conn m field))\<rparr>))"

text \<open>
  The second loop runs over \<^verbatim>\<open>_connectivity_fields\<close> = (bonds, bondtype, angles,
  dihedrals, impropers) and skips \<^verbatim>\<open>bondtype\<close>.
\<close>

definition reorderAtoms :: "nat list \<Rightarrow> molecule \<Rightarrow> error option \<times> molecule" where
  "reorderAtoms order m =
     (case for_each atom_fields (reorder_field order) m of
        (Some e, m1) \<Rightarrow> (Some e, m1)
      | (None, m1) \<Rightarrow>
          (case reorder_coords order m1 of
             (Some e, m2) \<Rightarrow> (Some e, m2)
           | (None, m2) \<Rightarrow>
               (case inverse_order order of
                  Raise e \<Rightarrow> (Some e, m2)
                | Ok inverseorder \<Rightarrow>
                    for_each [BONDS, ANGLES, DIHEDRALS, IMPROPERS] (reorder_conn inverseorder) m2)))"

section \<open>\<^verbatim>\<open>Molecule._mergeTopologies\<close>\<close>

text \<open>
  \<^verbatim>\<open>Molecule._topo_fields\<close>: the per-atom columns, the connectivity fields and
  \<^verbatim>\<open>crystalinfo\<close>. The \<^verbatim>\<open>overwrite\<close> argument is \<^verbatim>\<open>None\<close> or a sequence of
  names, \<^verbatim>\<open>'all'\<close> among them; a single string is wrapped into a tuple by the first
  statement of the method, so \<^verbatim>\<open>overwrite='all'\<close> is \<open>Some [OwAll]\<close>.
\<close>

datatype tfield = AtomF afield | ConnF cfield | BONDTYPE | CRYSTALINFO

datatype owname = OwAll | OwField tfield

definition topo_fields :: "tfield list" where
  "topo_fields = map AtomF atom_fields @
     [ConnF BONDS, BONDTYPE, ConnF ANGLES, ConnF DIHEDRALS, ConnF IMPROPERS, CRYSTALINFO]"

text \<open>
  \<^verbatim>\<open>overwrite is not None and ((overwrite[0] == 'all') or (field in overwrite))\<close>;
  \<^verbatim>\<open>overwrite[0]\<close> raises on an empty sequence.
\<close>

definition overwritten :: "owname list option \<Rightarrow> tfield \<Rightarrow> bool result" where
  "overwritten ow field =
     (case ow of
        None \<Rightarrow> Ok False
      | Some [] \<Rightarrow> Raise IndexError
      | Some (x # xs) \<Rightarrow> Ok (x = OwAll \<or> OwField field \<in> set (x # xs)))"

text \<open>
  \<^verbatim>\<open>np.all(newfielddata == '')\<close> for a column of dtype \<^verbatim>\<open>object\<close>,
  \<^verbatim>\<open>np.all(newfielddata == 0)\<close> for a numeric one.
\<close>

definition is_blank :: "bool \<Rightarrow> aval \<Rightarrow> bool" where
  "is_blank obj v = (if obj then v = StrV '''' else v = IntV 0 \<or> v = FltV 0)"

text \<open>
  One round of the loop over \<^verbatim>\<open>mol._topo_fields\<close>: a field that is empty or blank in
  \<open>mol\<close> is skipped; a per-atom column must have the shape of the existing one; the
  field is replaced when \<open>overwrite\<close> selects it and must be equal otherwise.
\<close>

definition merge_value :: "owname list option \<Rightarrow> tfield \<Rightarrow> bool \<Rightarrow> molecule \<Rightarrow> molecule \<Rightarrow> error option \<times> molecule" where
  "merge_value ow field same replaced self =
     (case overwritten ow field of
        Raise e \<Rightarrow> (Some e, self)
      | Ok True \<Rightarrow> (None, replaced)
      | Ok False \<Rightarrow> if same then (None, self) else (Some (TopologyInconsistencyError DifferentInfo), self))"

fun merge_field :: "owname list option \<Rightarrow> molecule \<Rightarrow> tfield \<Rightarrow> molecule \<Rightarrow> error option \<times> molecule" where
  "merge_field ow mol CRYSTALINFO self = (None, self)"
| "merge_field ow mol (AtomF k) self =
     (let newfielddata = atomf mol k in
      if newfielddata = [] then (None, self)
      else if list_all (is_blank (dtype_object k)) newfielddata then (None, self)
      else if length (atomf self k) = length newfielddata
        then merge_value ow (AtomF k) (atomf self k = newfielddata)
               (self\<lparr>atomf := (atomf self)(k := newfielddata)\<rparr>) self
        else (Some (TopologyInconsistencyError DifferentShape), self))"
| "merge_field ow mol (ConnF f) self =
     (let newfielddata = conn mol f in
      if newfielddata = [] then (None, self)
      else if list_all (list_all (\<lambda>e. e = 0)) newfielddata then (None, self)
      else merge_value ow (ConnF f) (conn self f = newfielddata)
             (self\<lparr>conn := (conn self)(f := newfielddata)\<rparr>) self)"
| "merge_field ow mol BONDTYPE self =
     (let newfielddata = bondtype mol in
      if newfielddata = [] then (None, self)
      else if list_all (\<lambda>t. t = '''') newfielddata then (None, self)
      else merge_value ow BONDTYPE (bondtype self = newfielddata)
             (self\<lparr>bondtype := newfielddata\<rparr>) self)"

text \<open>
  The check of the atom names. When both molecules carry a name and the names differ:
  if every existing name occurs in \<open>mol\<close> (\<^verbatim>\<open>np.setdiff1d(self.name, mol.name)\<close> is
  empty) the atoms of \<open>mol\<close> are reordered to the existing order, which needs the
  existing names to be unique; otherwise the merge fails. By then \<^verbatim>\<open>overwrite\<close> is a
  tuple, a list or \<^verbatim>\<open>None\<close>, so the test \<^verbatim>\<open>overwrite == 'all'\<close> that would let
  non-unique names pass is false for every argument. The result is \<open>mol\<close>, reordered
  or as it was.
\<close>

definition check_names :: "molecule \<Rightarrow> molecule \<Rightarrow> molecule result" where
  "check_names mol self =
     (if length (atomf self NAME) = numAtomsTopo mol
         \<and> list_ex (\<lambda>n. n \<noteq> StrV '''') (atomf mol NAME)
         \<and> list_ex (\<lambda>n. n \<noteq> StrV '''') (atomf self NAME)
         \<and> atomf self NAME \<noteq> atomf mol NAME
      then
        (if set (atomf self NAME) \<subseteq> set (atomf mol NAME) then
           (if distinct (atomf self NAME) then
              (case reorderAtoms (map (\<lambda>nn. the (first_index_of (atomf mol NAME) nn)) (atomf self NAME)) mol of
                 (Some e, mol') \<Rightarrow> Raise e
               | (None, mol') \<Rightarrow> Ok mol')
            else Raise NonUniqueNames)
         else Raise (TopologyInconsistencyError DifferentNames))
      else Ok mol)"

text \<open>
  \<^verbatim>\<open>Molecule._guessMissingElements\<close>: an empty element is deduced from the atom's name
  and residue name by \<^verbatim>\<open>_deduce_PDB_atom_name\<close> and \<^verbatim>\<open>_getPDBElement\<close> of
  \<^verbatim>\<open>moleculekit.writers\<close>, which is outside this file: \<open>deduce\<close> is their composition.
\<close>

definition guessMissingElements :: "(aval \<Rightarrow> aval \<Rightarrow> string) \<Rightarrow> molecule \<Rightarrow> aval list result" where
  "guessMissingElements deduce m =
     (let elements = atomf m ELEMENT;
          emptyidx = filter (\<lambda>i. elements ! i = StrV '''') [0..<length elements]
      in if \<exists>i \<in> set emptyidx. length (atomf m NAME) \<le> i \<or> length (atomf m RESNAME) \<le> i
         then Raise IndexError
         else Ok (map (\<lambda>i. if elements ! i = StrV ''''
                            then StrV (deduce (atomf m NAME ! i) (atomf m RESNAME ! i))
                            else elements ! i) [0..<length elements]))"

text \<open>
  The body of the loop over \<^verbatim>\<open>newmols\<close>. A source is a \<^verbatim>\<open>Molecule\<close> with all its
  attributes: an object built by hand that lacks \<^verbatim>\<open>topoloc\<close>, on which the last
  assignments raise \<^verbatim>\<open>AttributeError\<close>, is not modelled.
\<close>

definition merge_topology :: "(aval \<Rightarrow> aval \<Rightarrow> string) \<Rightarrow> owname list option \<Rightarrow> molecule \<Rightarrow> molecule \<Rightarrow> error option \<times> molecule" where
  "merge_topology deduce ow mol self =
     (if numAtomsTopo mol = 0 then (None, self)
      else
        let self1 = (if numAtomsTopo self = 0 then emptyTopo (numAtoms mol) self else self) in
        case check_names mol self1 of
          Raise e \<Rightarrow> (Some e, self1)
        | Ok mol1 \<Rightarrow>
            (case for_each topo_fields (merge_field ow mol1) self1 of
               (Some e, self2) \<Rightarrow> (Some e, self2)
             | (None, self2) \<Rightarrow>
                 let self3 = (if conn self2 BONDS \<noteq> [] \<and> bondtype self2 = []
                              then self2\<lparr>bondtype := replicate (length (conn self2 BONDS)) ''un''\<rparr>
                              else self2)
                 in case guessMissingElements deduce self3 of
                      Raise e \<Rightarrow> (Some e, self3)
                    | Ok elements \<Rightarrow>
                        (None, self3\<lparr>atomf := (atomf self3)(ELEMENT := elements),
                                     crystalinfo := crystalinfo mol1,
                                     topoloc := topoloc mol1,
                                     fileloc := fileloc mol1,
                                     viewname := viewname mol1\<rparr>)))"

definition mergeTopologies :: "(aval \<Rightarrow> aval \<Rightarrow> string) \<Rightarrow> molecule list \<Rightarrow> owname list option \<Rightarrow> molecule \<Rightarrow> error option \<times> molecule" where
  "mergeTopologies deduce newmols ow self = for_each newmols (merge_topology deduce ow) self"

section \<open>\<^verbatim>\<open>Molecule._mergeTrajectories\<close>\<close>

text \<open>
  \<^verbatim>\<open>np.concatenate(arrays, axis=-1)\<close>: along the frames. Coordinate arrays must agree
  in the number of atoms, box arrays have three rows each.
\<close>

definition concat_coords :: "coords_t list \<Rightarrow> coords_t result" where
  "concat_coords cs =
     (case cs of
        [] \<Rightarrow> Raise ValueError
      | c # rest \<Rightarrow>
          if list_all (\<lambda>d. length (crows d) = length (crows c)) rest
          then Ok \<lparr> crows = map (\<lambda>i. map (\<lambda>j. concat (map (\<lambda>d. crows d ! i ! j) cs)) [0..<3])
                                 [0..<length (crows c)],
                    cframes = sum_list (map cframes cs) \<rparr>
          else Raise ValueError)"

definition concat_box :: "real list list list \<Rightarrow> real list list" where
  "concat_box bs = map (\<lambda>j. concat (map (\<lambda>b. b ! j) bs)) [0..<3]"

text \<open>\<^verbatim>\<open>a[::skip]\<close> for a positive \<open>skip\<close>: the entries 0, skip, 2 skip, ...\<close>

definition every_nth :: "nat \<Rightarrow> 'a list \<Rightarrow> 'a list" where
  "every_nth k a = map (\<lambda>i. a ! (i * k)) [0..<(length a + k - 1) div k]"

text \<open>
  \<^verbatim>\<open>_mergeTrajectories(newmols, skip, append)\<close>. With \<^verbatim>\<open>append\<close> the existing
  trajectory comes first; its \<^verbatim>\<open>fileloc\<close> list enters the new one as a single entry
  (\<^verbatim>\<open>trajinfo[field].append(self.__dict__[field])\<close>), those of the new molecules entry by
  entry. A \<open>skip\<close> of 0 is refused by Python's slicing (\<^verbatim>\<open>ValueError\<close>). No statement
  of the method assigns \<^verbatim>\<open>_frame\<close>.
\<close>

definition mergeTrajectories :: "molecule list \<Rightarrow> nat option \<Rightarrow> bool \<Rightarrow> molecule \<Rightarrow> error option \<times> molecule" where
  "mergeTrajectories newmols skip appending self =
     (let own = (if appending \<and> numAtomsTraj self \<noteq> 0 then [self] else []);
          news = filter (\<lambda>mol. numAtomsTraj mol \<noteq> 0) newmols;
          srcs = own @ news
      in case (if srcs = [] then Ok self
               else case concat_coords (map coords srcs) of
                      Raise e \<Rightarrow> Raise e
                    | Ok c \<Rightarrow> Ok (self\<lparr>coords := c,
                                      box := concat_box (map box srcs),
                                      boxangles := concat_box (map boxangles srcs),
                                      fileloc := map (\<lambda>m. Nested (fileloc m)) own @ concat (map fileloc news),
                                      step := concat (map step srcs),
                                      time := concat (map time srcs)\<rparr>)) of
           Raise e \<Rightarrow> (Some e, self)
         | Ok self1 \<Rightarrow>
             if numAtomsTopo self1 \<noteq> 0 \<and> numAtomsTraj self1 = 0
             then (None, emptyTraj (numAtomsTopo self1) self1)
             else (case skip of
                     None \<Rightarrow> (None, self1)
                   | Some k \<Rightarrow>
                       if k = 0 then (Some ValueError, self1)
                       else (None, self1\<lparr>coords := \<lparr> crows = map (map (every_nth k)) (crows (coords self1)),
                                                      cframes = (cframes (coords self1) + k - 1) div k \<rparr>,
                                          box := map (every_nth k) (box self1),
                                          boxangles := map (every_nth k) (boxangles self1),
                                          step := every_nth k (step self1),
                                          time := every_nth k (time self1),
                                          fileloc := every_nth k (fileloc self1)\<rparr>)))"

section \<open>\<^verbatim>\<open>class UniqueAtomID\<close>\<close>

text \<open>
  The attributes of a \<^verbatim>\<open>UniqueAtomID\<close> object: the constructor sets those it is
  given, \<^verbatim>\<open>fromMolecule\<close> all of \<^verbatim>\<open>UniqueAtomID._fields\<close>.
\<close>

type_synonym UniqueAtomID = "afield \<Rightarrow> aval option"

definition uid_fields :: "afield list" where
  "uid_fields = [NAME, ALTLOC, RESNAME, CHAIN, RESID, INSERTION, SEGID]"

text \<open>
  \<^verbatim>\<open>UniqueAtomID.fromMolecule(mol, sel, idx)\<close>: exactly one of \<open>sel\<close> and \<open>idx\<close>
  is given; the selection must hold one atom; \<^verbatim>\<open>getattr(mol, f)[atom][0]\<close> raises
  when the column has no such row.
\<close>

definition fromMolecule :: "vmdselection \<Rightarrow> molecule \<Rightarrow> selection option \<Rightarrow> nat option \<Rightarrow> UniqueAtomID result" where
  "fromMolecule vmd mol sel idx =
     (case (case (sel, idx) of
              (Some s, Some i) \<Rightarrow> Raise SelOrIdx
            | (None, None) \<Rightarrow> Raise SelOrIdx
            | (Some s, None) \<Rightarrow>
                (case atomselect vmd mol s True of Raise e \<Rightarrow> Raise e | Ok r \<Rightarrow> Ok (indexes_of r))
            | (None, Some i) \<Rightarrow> Ok [i]) of
        Raise e \<Rightarrow> Raise e
      | Ok atom \<Rightarrow>
          if 1 < length atom then Raise MoreThanOneAtom
          else if length atom = 0 then Raise NoAtomMatched
          else if \<exists>f \<in> set uid_fields. length (atomf mol f) \<le> atom ! 0 then Raise IndexError
          else Ok (\<lambda>f. if f \<in> set uid_fields then Some (atomf mol f ! (atom ! 0)) else None))"

text \<open>
  One round of the loop of \<^verbatim>\<open>selectAtom\<close>: \<^verbatim>\<open>sel &= getattr(mol, f) == getattr(self, f)\<close>.
  The comparison has the length of the column; \<^verbatim>\<open>&=\<close> needs that to be the length of
  \<open>sel\<close>, or 1 (numpy then uses the one value for every entry).
\<close>

definition match_field :: "UniqueAtomID \<Rightarrow> molecule \<Rightarrow> afield list \<Rightarrow> afield \<Rightarrow> bool list \<Rightarrow> error option \<times> bool list" where
  "match_field uid mol ignore f sel =
     (if f \<in> set ignore then (None, sel)
      else case uid f of
        None \<Rightarrow> (Some AttributeError, sel)
      | Some v \<Rightarrow>
          let eq = map (\<lambda>x. x = v) (atomf mol f) in
          if length eq = length sel then (None, map (\<lambda>(a, b). a \<and> b) (zip sel eq))
          else if length eq = 1 then (None, map (\<lambda>a. a \<and> eq ! 0) sel)
          else (Some ValueError, sel))"

datatype atom_selected = AtomIndex nat | AtomMask "bool list"

text \<open>
  \<^verbatim>\<open>UniqueAtomID.selectAtom(mol, indexes, ignore)\<close>; \<open>ignore = []\<close> is
  \<^verbatim>\<open>ignore=None\<close>.
\<close>

definition selectAtom :: "UniqueAtomID \<Rightarrow> molecule \<Rightarrow> bool \<Rightarrow> afield list \<Rightarrow> atom_selected result" where
  "selectAtom uid mol indexes ignore =
     (case for_each uid_fields (match_field uid mol ignore) (replicate (numAtoms mol) True) of
        (Some e, sel) \<Rightarrow> Raise e
      | (None, sel) \<Rightarrow>
          if 1 < length (filter (\<lambda>b. b) sel) then Raise AtomNotUnique
          else if length (filter (\<lambda>b. b) sel) = 0 then Raise AtomNotPresent
          else if indexes then Ok (AtomIndex (np_where sel ! 0))
          else Ok (AtomMask sel))"

section \<open>\<^verbatim>\<open>calculateUniqueBonds\<close>\<close>

text \<open>
  A row of the function's set: the two endpoints in ascending order
  (\<^verbatim>\<open>np.sort(bonds, axis=1)\<close>) and, when bond types are given, the type.
  \<^verbatim>\<open>list(set(...))\<close> lists the distinct rows in the order in which Python's
  \<^verbatim>\<open>set\<close> iterates, which the language leaves open: it is the parameter \<open>pyset\<close>.
  \<^verbatim>\<open>np.argsort\<close> returns some permutation that sorts its argument (its default
  algorithm is not stable): it is the parameter \<open>argsort\<close>. What the two are known to
  do is \<open>set_order\<close> and \<open>sorting_order\<close>.
\<close>

type_synonym bondrow = "(nat \<times> nat) \<times> string option"

definition set_order :: "(bondrow list \<Rightarrow> bondrow list) \<Rightarrow> bool" where
  "set_order pyset = (\<forall>xs. distinct (pyset xs) \<and> set (pyset xs) = set xs)"

definition sorting_order :: "(nat list \<Rightarrow> nat list) \<Rightarrow> bool" where
  "sorting_order argsort =
     (\<forall>ks. mset (argsort ks) = mset [0..<length ks] \<and> sorted (map (\<lambda>i. ks ! i) (argsort ks)))"

definition sort_row :: "nat \<times> nat \<Rightarrow> nat \<times> nat" where
  "sort_row b = (min (fst b) (snd b), max (fst b) (snd b))"

text \<open>
  With bond types the rows are (endpoints, type) and the \<^verbatim>\<open>assert\<close> needs one type
  per bond. Without, \<^verbatim>\<open>np.array(list(set(...)))\<close> of no bond at all is an array of
  shape (0,), and \<^verbatim>\<open>bonds[:, 0]\<close> raises \<^verbatim>\<open>IndexError\<close> on it.
\<close>

definition calculateUniqueBonds ::
  "(bondrow list \<Rightarrow> bondrow list) \<Rightarrow> (nat list \<Rightarrow> nat list) \<Rightarrow> (nat \<times> nat) list \<Rightarrow> string list option
     \<Rightarrow> ((nat \<times> nat) list \<times> string list option) result" where
  "calculateUniqueBonds pyset argsort bonds btypes =
     (if btypes \<noteq> None \<and> the btypes \<noteq> [] then
        (if length (the btypes) = length bonds then
           let unique_sorted = pyset (map (\<lambda>(bb, bt). (sort_row bb, Some bt)) (zip bonds (the btypes)));
               bonds1 = map fst unique_sorted;
               bondtypes = map (\<lambda>r. the (snd r)) unique_sorted;
               sortidx = argsort (map fst bonds1)
           in Ok (map (\<lambda>i. bonds1 ! i) sortidx, Some (map (\<lambda>i. bondtypes ! i) sortidx))
         else Raise AssertionError)
      else
        let bonds1 = map fst (pyset (map (\<lambda>bb. (sort_row bb, None)) bonds)) in
        if bonds1 = [] then Raise IndexError
        else let sortidx = argsort (map fst bonds1)
             in Ok (map (\<lambda>i. bonds1 ! i) sortidx, None))"

section \<open>The invariant of the container\<close>

text \<open>
  Every per-atom column has \<^verbatim>\<open>numAtoms\<close> entries, and every atom index in
  \<^verbatim>\<open>bonds\<close>, \<^verbatim>\<open>angles\<close>, \<^verbatim>\<open>dihedrals\<close> and \<^verbatim>\<open>impropers\<close> is below
  \<^verbatim>\<open>numAtoms\<close>.
\<close>

definition columns_aligned :: "molecule \<Rightarrow> bool" where
  "columns_aligned m = list_all (\<lambda>k. length (atomf m k) = numAtoms m) atom_fields"

definition endpoints_valid :: "molecule \<Rightarrow> bool" where
  "endpoints_valid m =
     list_all (\<lambda>f. list_all (list_all (\<lambda>e. e < numAtoms m)) (conn m f))
       [BONDS, ANGLES, DIHEDRALS, IMPROPERS]"

definition invariant :: "molecule \<Rightarrow> bool" where
  "invariant m = (columns_aligned m \<and> endpoints_valid m)"

section \<open>The removal remap in the spec's words\<close>

text \<open>
  The translation table of the spec: a surviving index goes to its new contiguous
  position, the number of surviving indices below it; an edge that touches a removed
  index is dropped, the endpoints of the others are translated; the bond types of the
  dropped bond rows are dropped with them. \<open>survivors\<close> are the rows of a per-atom
  array that stay.
\<close>

definition new_position :: "nat list \<Rightarrow> nat \<Rightarrow> nat" where
  "new_position idx i = length (filter (\<lambda>j. j \<notin> set idx) [0..<i])"

definition touches :: "nat list \<Rightarrow> nat list \<Rightarrow> bool" where
  "touches idx r = list_ex (\<lambda>e. e \<in> set idx) r"

definition remap_edges :: "nat list \<Rightarrow> nat list list \<Rightarrow> nat list list" where
  "remap_edges idx rs = map (map (new_position idx)) (filter (\<lambda>r. \<not> touches idx r) rs)"

definition prune_types :: "nat list \<Rightarrow> nat list list \<Rightarrow> string list \<Rightarrow> string list" where
  "prune_types idx rs ts = map snd (filter (\<lambda>rt. \<not> touches idx (fst rt)) (zip rs ts))"

definition survivors :: "nat list \<Rightarrow> 'a list \<Rightarrow> 'a list" where
  "survivors idx a = map (\<lambda>i. a ! i) (filter (\<lambda>i. i \<notin> set idx) [0..<length a])"

text \<open>The translation table as a list: \<open>- 1\<close> at a removed index.\<close>

definition table :: "nat \<Rightarrow> nat list \<Rightarrow> int list" where
  "table n idx = map (\<lambda>i. if i \<in> set idx then - 1 else int (new_position idx i)) [0..<n]"

text \<open>
  A molecule as a reader leaves it: the invariant holds, \<^verbatim>\<open>coords\<close> has a row per
  atom, and \<^verbatim>\<open>bondtype\<close> is empty or has a label per bond.
\<close>

definition well_formed :: "molecule \<Rightarrow> bool" where
  "well_formed m =
     (invariant m \<and> numAtomsTraj m = numAtoms m
      \<and> (bondtype m = [] \<or> length (bondtype m) = length (conn m BONDS)))"

section \<open>Resolving a snapshot in the spec's words\<close>

text \<open>
  The rows of the current container that match the stored snapshot on every field of
  \<^verbatim>\<open>UniqueAtomID._fields\<close>, in ascending order.
\<close>

definition matches_row :: "UniqueAtomID \<Rightarrow> molecule \<Rightarrow> nat \<Rightarrow> bool" where
  "matches_row uid mol i = list_all (\<lambda>f. uid f = Some (atomf mol f ! i)) uid_fields"

definition matching_rows :: "UniqueAtomID \<Rightarrow> molecule \<Rightarrow> nat list" where
  "matching_rows uid mol = filter (matches_row uid mol) [0..<numAtoms mol]"

section \<open>Permutations of the atom indices\<close>

text \<open>A list that holds every atom index below \<open>n\<close> once.\<close>

definition is_permutation :: "nat \<Rightarrow> nat list \<Rightarrow> bool" where
  "is_permutation n order = (length order = n \<and> distinct order \<and> list_all (\<lambda>i. i < n) order)"

section \<open>Bond rows in the spec's words\<close>

text \<open>
  The (pair, type) tuples of a bond list with its parallel list of bond types, or the
  pairs alone when no types are supplied (\<^verbatim>\<open>None\<close> or an empty list).
\<close>

definition bond_rows :: "(nat \<times> nat) list \<Rightarrow> string list option \<Rightarrow> bondrow list" where
  "bond_rows bonds btypes =
     (if btypes \<noteq> None \<and> the btypes \<noteq> []
      then map (\<lambda>(bb, bt). (bb, Some bt)) (zip bonds (the btypes))
      else map (\<lambda>bb. (bb, None)) bonds)"

text \<open>
  One order in which a set may list its rows (the last row first) and one sorting
  permutation (the stable one).
\<close>

definition reversed_set :: "bondrow list \<Rightarrow> bondrow list" where
  "reversed_set xs = rev (remdups xs)"

definition stable_argsort :: "nat list \<Rightarrow> nat list" where
  "stable_argsort ks = sort_key (\<lambda>i. ks ! i) [0..<length ks]"

section \<open>Example molecules\<close>

text \<open>A selection oracle that selects no atom.\<close>

definition no_vmd :: vmdselection where
  "no_vmd = (\<lambda>m e. replicate (numAtoms m) False)"

text \<open>
  Two atoms with one frame of coordinates and a bond between them:
  \<^verbatim>\<open>Molecule().empty(2)\<close> with \<^verbatim>\<open>coords\<close>, \<^verbatim>\<open>box\<close>, \<^verbatim>\<open>boxangles\<close>, \<^verbatim>\<open>bonds\<close> and
  \<^verbatim>\<open>bondtype\<close> assigned.
\<close>

definition diatomic :: molecule where
  "diatomic = (empty_mol 2 (Molecule None))
     \<lparr> coords := \<lparr> crows = [[[0], [0], [0]], [[1], [0], [0]]], cframes = 1 \<rparr>,
       box := [[0], [0], [0]], boxangles := [[0], [0], [0]],
       conn := (\<lambda>f. [])(BONDS := [[0, 1]]), bondtype := [''1''] \<rparr>"

text \<open>
  Four atoms in a chain, \<^verbatim>\<open>Molecule().empty(4)\<close> with three bonds, their types and two
  angles assigned.
\<close>

definition chain4 :: molecule where
  "chain4 = (empty_mol 4 (Molecule None))
     \<lparr> conn := (\<lambda>f. [])(BONDS := [[0, 1], [1, 2], [2, 3]], ANGLES := [[0, 1, 2], [0, 2, 3]]),
       bondtype := [''1'', ''2'', ''un''] \<rparr>"

text \<open>
  A water molecule whose two hydrogens carry the same name: three atoms that agree in
  every field of \<^verbatim>\<open>UniqueAtomID._fields\<close> but the name, and atoms 1 and 2 in the
  name too. \<open>water_h\<close> is the snapshot of atom 1.
\<close>

definition water :: molecule where
  "water = (let m = empty_mol 3 (Molecule None) in
     m\<lparr> atomf := (atomf m)(NAME := [StrV ''O'', StrV ''H'', StrV ''H''],
                               RESNAME := [StrV ''HOH'', StrV ''HOH'', StrV ''HOH'']) \<rparr>)"

definition water_h :: UniqueAtomID where
  "water_h = (\<lambda>f. if f \<in> set uid_fields then Some (atomf water f ! 1) else None)"

text \<open>
  Four atoms with the names N, CA, C and O, bonded in a chain; \<open>backbone_c\<close> is the
  snapshot of atom 2.
\<close>

definition backbone :: molecule where
  "backbone = (let m = empty_mol 4 (Molecule None) in
     m\<lparr> atomf := (atomf m)(NAME := [StrV ''N'', StrV ''CA'', StrV ''C'', StrV ''O'']),
        conn := (\<lambda>f. [])(BONDS := [[0, 1], [1, 2], [2, 3]]),
        bondtype := [''1'', ''1'', ''2''] \<rparr>)"

definition backbone_c :: UniqueAtomID where
  "backbone_c = (\<lambda>f. if f \<in> set uid_fields then Some (atomf backbone f ! 2) else None)"

text \<open>
  The molecule of \<^verbatim>\<open>test_reorderAtoms\<close> (Scenario A of the spec): eight atoms with
  one frame of coordinates, three bonds with their types, three angles, three dihedrals
  and the same impropers. The test draws the coordinates at random; here atom \<open>i\<close>
  stands at (i, 2 i, 3 i).
\<close>

definition scenario_a :: molecule where
  "scenario_a = (let m = empty_mol 8 (Molecule None) in
     m\<lparr> atomf := (atomf m)(NAME := [StrV ''C1'', StrV ''C3'', StrV ''H'', StrV ''O'',
                                     StrV ''S'', StrV ''N'', StrV ''H3'', StrV ''H1'']),
        coords := \<lparr> crows = map (\<lambda>i. [[real i], [2 * real i], [3 * real i]]) [0..<8], cframes = 1 \<rparr>,
        conn := (\<lambda>f. [])(BONDS := [[0, 3], [1, 4], [7, 2]],
                           ANGLES := [[0, 3, 2], [1, 4, 6], [7, 2, 5]],
                           DIHEDRALS := [[0, 3, 1, 2], [1, 4, 2, 7], [7, 2, 1, 0]],
                           IMPROPERS := [[0, 3, 1, 2], [1, 4, 2, 7], [7, 2, 1, 0]]),
        bondtype := [''un'', ''1'', ''2''] \<rparr>)"

text \<open>
  A water as a topology file gives it: three atoms named H1, O and H2, two bonds with
  their types and an angle, and no coordinates (\<^verbatim>\<open>Molecule()\<close> after
  \<^verbatim>\<open>_emptyTopo(3)\<close>, with the fields assigned).
\<close>

definition topology_water :: molecule where
  "topology_water = (let m = emptyTopo 3 (Molecule None) in
     m\<lparr> atomf := (atomf m)(NAME := [StrV ''H1'', StrV ''O'', StrV ''H2'']),
        conn := (\<lambda>f. [])(BONDS := [[1, 0], [1, 2]], ANGLES := [[0, 1, 2]]),
        bondtype := [''1'', ''2''] \<rparr>)"

text \<open>
  One atom with a trajectory of three frames, the third of them active (the value is in
  range for the setter of \<^verbatim>\<open>frame\<close>), and the same atom with a single frame, as a
  reader would return it for a one-frame file.
\<close>

definition three_frames :: molecule where
  "three_frames = (empty_mol 1 (Molecule None))
     \<lparr> coords := \<lparr> crows = [[[0, 1, 2], [0, 0, 0], [0, 0, 0]]], cframes = 3 \<rparr>,
       box := [[0, 0, 0], [0, 0, 0], [0, 0, 0]], boxangles := [[0, 0, 0], [0, 0, 0], [0, 0, 0]],
       frame_ptr := 2,
       fileloc := [Loc ''traj.xtc'' 0, Loc ''traj.xtc'' 1, Loc ''traj.xtc'' 2],
       step := [0, 1, 2], time := [0, 1, 2] \<rparr>"

definition one_frame :: molecule where
  "one_frame = (Molecule None)
     \<lparr> coords := \<lparr> crows = [[[5], [0], [0]]], cframes = 1 \<rparr>,
       box := [[0], [0], [0]], boxangles := [[0], [0], [0]],
       fileloc := [Loc ''last.xtc'' 0], step := [0], time := [0] \<rparr>"

text \<open>
  A water with one bond and its type, and the same atoms as a topology file without
  bond types gives them: two bonds, no type. \<open>no_deduce\<close> is an element table that
  knows no element.
\<close>

definition typed_water :: molecule where
  "typed_water = (let m = empty_mol 3 (Molecule None) in
     m\<lparr> atomf := (atomf m)(NAME := [StrV ''O'', StrV ''H1'', StrV ''H2''],
                               ELEMENT := [StrV ''O'', StrV ''H'', StrV ''H'']),
        conn := (\<lambda>f. [])(BONDS := [[0, 1]]), bondtype := [''1''] \<rparr>)"

definition untyped_water :: molecule where
  "untyped_water = (let m = empty_mol 3 (Molecule None) in
     m\<lparr> atomf := (atomf m)(NAME := [StrV ''O'', StrV ''H1'', StrV ''H2''],
                               ELEMENT := [StrV ''O'', StrV ''H'', StrV ''H'']),
        conn := (\<lambda>f. [])(BONDS := [[0, 1], [0, 2]]) \<rparr>)"

definition no_deduce :: "aval \<Rightarrow> aval \<Rightarrow> string" where
  "no_deduce nm resnm = ''Xx''"

text \<open>
  Two atoms without names, \<^verbatim>\<open>Molecule().empty(2)\<close>, two atoms named A and B, and
  two atoms named C and D.
\<close>

definition unnamed_pair :: molecule where
  "unnamed_pair = empty_mol 2 (Molecule None)"

definition named_pair :: molecule where
  "named_pair = (let m = empty_mol 2 (Molecule None) in
     m\<lparr> atomf := (atomf m)(NAME := [StrV ''A'', StrV ''B'']) \<rparr>)"

definition other_pair :: molecule where
  "other_pair = (let m = empty_mol 2 (Molecule None) in
     m\<lparr> atomf := (atomf m)(NAME := [StrV ''C'', StrV ''D'']) \<rparr>)"

section \<open>Properties\<close>

subsection \<open>Evaluating the model on the examples\<close>

lemmas mol_eval = empty_mol_def emptyTraj_def emptyTopo_def empty_coords_def empty_field_def
  Molecule_def numAtoms_def numAtomsTopo_def numAtomsTraj_def numFrames_def atom_fields_def

lemmas insert_eval =
  insert_mol_def insert_body_def insert_field_def insert_coords_def insertappend_def
  insertappend_coords_def coords_size_def mol_eval

subsection \<open>Insertion\<close>

text \<open>
  Claim C1 (every sequence of mutations that completes without error leaves every
  per-atom column as long as \<^verbatim>\<open>numAtoms\<close> and every connectivity endpoint below
  \<^verbatim>\<open>numAtoms\<close>) fails on the code: the empty molecule and \<open>diatomic\<close> satisfy the
  invariant, \<^verbatim>\<open>Molecule().insert(diatomic, 3)\<close> completes without error, and the
  result has two atoms and the bond (3, 4).
\<close>

theorem insert_into_empty_breaks_invariant:
  "invariant (Molecule None) \<and> invariant diatomic
   \<and> fst (insert_mol no_vmd diatomic 3 None (Molecule None)) = None
   \<and> numAtoms (snd (insert_mol no_vmd diatomic 3 None (Molecule None))) = 2
   \<and> conn (snd (insert_mol no_vmd diatomic 3 None (Molecule None))) BONDS = [[3, 4]]
   \<and> \<not> invariant (snd (insert_mol no_vmd diatomic 3 None (Molecule None)))"
  by (simp add: insert_eval invariant_def columns_aligned_def endpoints_valid_def diatomic_def)

text \<open>
  Claim C2 (an \<^verbatim>\<open>insert\<close> that fails leaves the molecule as it was) fails on the
  code: inserting \<open>diatomic\<close> into itself at index 5 raises, and the molecule is left
  with the bond (5, 6) and a second bond type.
\<close>

theorem failed_insert_leaves_mutation:
  "insert_mol no_vmd diatomic 5 None diatomic =
     (Some (InsertFailed IndexError),
      diatomic\<lparr>conn := (conn diatomic)(BONDS := [[0, 1], [5, 6]]), bondtype := [''1'', ''1'']\<rparr>)
   \<and> conn diatomic BONDS = [[0, 1]] \<and> bondtype diatomic = [''1'']"
  by (simp add: insert_eval diatomic_def)


subsection \<open>Removal: the translation table\<close>

lemma fold_mark:
  "list_all (\<lambda>i. i < length mp) idx \<Longrightarrow>
   fold (\<lambda>i mp. mp[i := - 1]) idx mp = map (\<lambda>i. if i \<in> set idx then - 1 else mp ! i) [0..<length mp]"
proof (induction idx arbitrary: mp)
  case Nil
  then show ?case by (simp add: map_nth)
next
  case (Cons a idx)
  then show ?case
    by (auto simp: list_all_iff nth_list_update intro!: nth_equalityI)
qed

lemma length_assign_ones [simp]: "length (assign_ones xs vs) = length xs"
  by (induction xs vs rule: assign_ones.induct) auto

lemma nth_assign_ones:
  "i < length xs \<Longrightarrow>
   assign_ones xs vs ! i =
     (if xs ! i = 1 \<and> length (filter (\<lambda>x. x = 1) (take i xs)) < length vs
      then vs ! length (filter (\<lambda>x. x = 1) (take i xs)) else xs ! i)"
proof (induction xs vs arbitrary: i rule: assign_ones.induct)
  case (1 vs)
  then show ?case by simp
next
  case (2 x xs)
  then show ?case by simp
next
  case (3 x xs v vs)
  then show ?case by (cases i) auto
qed

lemma filter_take_upt:
  "i \<le> n \<Longrightarrow> filter (\<lambda>x. x = (1::int)) (take i (map (\<lambda>j. if j \<in> S then - 1 else 1) [0..<n]))
     = map (\<lambda>j. 1) (filter (\<lambda>j. j \<notin> S) [0..<i])"
  by (simp add: take_map filter_map comp_def min_def)

lemma count_survivors:
  "distinct idx \<Longrightarrow> list_all (\<lambda>i. i < n) idx \<Longrightarrow>
   length (filter (\<lambda>j. j \<notin> set idx) [0..<n]) = n - length idx"
proof -
  assume d: "distinct idx" and r: "list_all (\<lambda>i. i < n) idx"
  have "length (filter (\<lambda>j. j \<notin> set idx) [0..<n]) = card ({0..<n} - set idx)"
    by (simp add: length_filter_conv_card) (rule arg_cong [where f = card], auto)
  also have "\<dots> = n - card (set idx)"
    using r by (subst card_Diff_subset) (auto simp: list_all_iff)
  finally show ?thesis using d by (simp add: distinct_card)
qed

lemma new_position_less:
  assumes "distinct idx" "list_all (\<lambda>i. i < n) idx" "i < n" "i \<notin> set idx"
  shows "new_position idx i < n - length idx"
proof -
  have "[0..<n] = [0..<i] @ i # [Suc i..<n]"
    using assms(3) by (metis le_add2 le_add_same_cancel2 less_imp_add_positive upt_add_eq_append upt_conv_Cons)
  then have "length (filter (\<lambda>j. j \<notin> set idx) [0..<n]) > length (filter (\<lambda>j. j \<notin> set idx) [0..<i])"
    using assms(4) by simp
  then show ?thesis using count_survivors [OF assms(1,2)] by (simp add: new_position_def)
qed

lemma removal_map_closed:
  assumes "distinct idx" "list_all (\<lambda>i. i < n) idx"
  shows "removal_map n idx =
     Ok (map (\<lambda>i. if i \<in> set idx then - 1 else int (new_position idx i)) [0..<n])"
proof -
  let ?marked = "map (\<lambda>i. if i \<in> set idx then - 1 else (1::int)) [0..<n]"
  have "fold (\<lambda>i mp. mp[i := - 1]) idx (replicate n 1)
          = map (\<lambda>i. if i \<in> set idx then - 1 else replicate n (1::int) ! i) [0..<n]"
    using fold_mark [where mp = "replicate n 1" and idx = idx] assms(2) by simp
  also have "\<dots> = ?marked"
    by (rule map_cong [OF refl]) simp
  finally have m: "fold (\<lambda>i mp. mp[i := - 1]) idx (replicate n 1) = ?marked" .
  have c: "length (filter (\<lambda>x. x = 1) ?marked) = n - length idx"
    using filter_take_upt [of n n "set idx"] count_survivors [OF assms] by simp
  have a: "assign_ones ?marked (map int [0..<n - length idx])
     = map (\<lambda>i. if i \<in> set idx then - 1 else int (new_position idx i)) [0..<n]"
  proof (rule nth_equalityI)
    show "length (assign_ones ?marked (map int [0..<n - length idx])) =
          length (map (\<lambda>i. if i \<in> set idx then - 1 else int (new_position idx i)) [0..<n])"
      by simp
  next
    fix i assume "i < length (assign_ones ?marked (map int [0..<n - length idx]))"
    then have i: "i < n" by simp
    show "assign_ones ?marked (map int [0..<n - length idx]) ! i =
          map (\<lambda>i. if i \<in> set idx then - 1 else int (new_position idx i)) [0..<n] ! i"
    proof (cases "i \<in> set idx")
      case True
      then show ?thesis using i by (simp add: nth_assign_ones)
    next
      case False
      have "length (filter (\<lambda>x. x = 1) (take i ?marked)) = new_position idx i"
        using filter_take_upt [of i n "set idx"] i by (simp add: new_position_def)
      moreover have "new_position idx i < n - length idx"
        using new_position_less [OF assms i False] .
      ultimately show ?thesis using i False by (simp add: nth_assign_ones)
    qed
  qed
  have r: "\<not> (\<exists>i \<in> set idx. n \<le> i)" using assms(2) by (auto simp: list_all_iff)
  show ?thesis
    unfolding removal_map_def using r m c a by (simp add: Let_def)
qed


lemma mask_select_map: "mask_select (map P xs) xs = filter P xs"
  by (induction xs) (auto simp: mask_select_def)

lemma mask_select_zip:
  "length ys = length xs \<Longrightarrow> mask_select (map P xs) ys = map snd (filter (\<lambda>p. P (fst p)) (zip xs ys))"
  by (induction xs ys rule: list_induct2') (auto simp: mask_select_def)

lemma table_row_stays:
  "list_all (\<lambda>e. e < n) r \<Longrightarrow> (- 1 \<notin> set (map (\<lambda>e. table n idx ! e) r)) = (\<not> touches idx r)"
  by (induction r) (auto simp: table_def touches_def)

lemma table_row_nat:
  "list_all (\<lambda>e. e < n) r \<Longrightarrow> \<not> touches idx r \<Longrightarrow>
   map nat (map (\<lambda>e. table n idx ! e) r) = map (new_position idx) r"
  by (induction r) (auto simp: table_def touches_def)

lemma remap_rows_table:
  "list_all (list_all (\<lambda>e. e < n)) rs \<Longrightarrow>
   remap_rows (table n idx) rs = Ok (map (map (\<lambda>e. table n idx ! e)) rs)"
  by (fastforce simp: remap_rows_def table_def list_all_iff)

lemma stays_table:
  assumes "list_all (list_all (\<lambda>e. e < n)) rs"
  shows "map (\<lambda>r. - 1 \<notin> set r) (map (map (\<lambda>e. table n idx ! e)) rs) = map (\<lambda>r. \<not> touches idx r) rs"
  using assms by (induction rs) (simp_all add: table_row_stays del: set_map)

lemma mask_select_map2: "mask_select (map P xs) (map g xs) = map g (filter P xs)"
  by (induction xs) (auto simp: mask_select_def)

lemma kept_rows_table:
  assumes "list_all (list_all (\<lambda>e. e < n)) rs"
  shows "map (map nat) (mask_select (map (\<lambda>r. \<not> touches idx r) rs) (map (map (\<lambda>e. table n idx ! e)) rs))
         = remap_edges idx rs"
proof -
  have "map (map nat) (map (map (\<lambda>e. table n idx ! e)) (filter (\<lambda>r. \<not> touches idx r) rs))
        = map (map (new_position idx)) (filter (\<lambda>r. \<not> touches idx r) rs)"
    unfolding map_map
  proof (rule map_cong [OF refl])
    fix r assume "r \<in> set (filter (\<lambda>r. \<not> touches idx r) rs)"
    then have "list_all (\<lambda>e. e < n) r" "\<not> touches idx r"
      using assms by (auto simp: list_all_iff)
    then show "(map nat \<circ> map (\<lambda>e. table n idx ! e)) r = map (new_position idx) r"
      using table_row_nat [of n r idx] by simp
  qed
  then show ?thesis by (simp add: mask_select_map2 remap_edges_def)
qed

lemma update_field_closed:
  assumes rs: "list_all (list_all (\<lambda>e. e < n)) (conn m field)"
    and bt: "field = BONDS \<longrightarrow> bondtype m = [] \<or> length (bondtype m) = length (conn m BONDS)"
  shows "update_field (table n idx) field m =
     (None, m\<lparr>conn := (conn m)(field := remap_edges idx (conn m field)),
              bondtype := (if field = BONDS then prune_types idx (conn m BONDS) (bondtype m)
                           else bondtype m)\<rparr>)"
proof (cases "conn m field = []")
  case True
  have b: "field = BONDS \<Longrightarrow> bondtype m = []" using bt True by auto
  have c: "(conn m)(field := []) = conn m" using True by (metis fun_upd_triv)
  have "m\<lparr>conn := conn m, bondtype := bondtype m\<rparr> = m" by simp
  then show ?thesis
    using True b c by (auto simp: update_field_def remap_edges_def prune_types_def)
next
  case False
  define T where "T = map (map (\<lambda>e. table n idx ! e)) (conn m field)"
  define S where "S = map (\<lambda>r. \<not> touches idx r) (conn m field)"
  have rr: "remap_rows (table n idx) (conn m field) = Ok T"
    unfolding T_def by (rule remap_rows_table [OF rs])
  have st: "map (\<lambda>r. - 1 \<notin> set r) T = S"
    unfolding T_def S_def by (rule stays_table [OF rs])
  have kr: "map (map nat) (mask_select S T) = remap_edges idx (conn m field)"
    unfolding T_def S_def by (rule kept_rows_table [OF rs])
  have ls: "length S = length (conn m field)"
    unfolding S_def by simp
  have p: "field = BONDS \<Longrightarrow> bondtype m \<noteq> [] \<Longrightarrow>
           prune_types idx (conn m BONDS) (bondtype m) = mask_select S (bondtype m)"
    using bt unfolding S_def by (auto simp: prune_types_def mask_select_zip)
  have q: "bondtype m = [] \<Longrightarrow> prune_types idx (conn m BONDS) (bondtype m) = bondtype m"
    by (simp add: prune_types_def)
  consider (typed) "field = BONDS" "bondtype m \<noteq> []"
    | (untyped) "field = BONDS" "bondtype m = []"
    | (other) "field \<noteq> BONDS"
    by blast
  then show ?thesis
  proof cases
    case typed
    then have "length (bondtype m) = length S" using bt ls by auto
    then show ?thesis
      using typed False rr st kr p by (simp add: update_field_def Let_def)
  next
    case untyped
    then show ?thesis
      using False rr st kr q by (simp add: update_field_def Let_def)
  next
    case other
    then show ?thesis
      using False rr st kr by (simp add: update_field_def Let_def)
  qed
qed


lemma remap_edges_none [simp]: "remap_edges [] rs = rs"
  by (simp add: remap_edges_def new_position_def touches_def list_ex_iff map_idI)

lemma prune_types_none:
  "ts = [] \<or> length ts = length rs \<Longrightarrow> prune_types [] rs ts = ts"
  by (auto simp: prune_types_def touches_def list_ex_iff)

lemma cfield_ext: "h BONDS = g BONDS \<Longrightarrow> h ANGLES = g ANGLES \<Longrightarrow> h DIHEDRALS = g DIHEDRALS
    \<Longrightarrow> h IMPROPERS = g IMPROPERS \<Longrightarrow> h = g"
proof
  fix f :: cfield
  assume "h BONDS = g BONDS" "h ANGLES = g ANGLES" "h DIHEDRALS = g DIHEDRALS" "h IMPROPERS = g IMPROPERS"
  then show "h f = g f" by (cases f) simp_all
qed

lemma updateBondsAnglesDihedrals_closed:
  assumes ev: "endpoints_valid m"
    and bt: "bondtype m = [] \<or> length (bondtype m) = length (conn m BONDS)"
    and d: "distinct idx" and r: "list_all (\<lambda>i. i < numAtoms m) idx"
  shows "updateBondsAnglesDihedrals idx m =
     (None, m\<lparr>conn := (\<lambda>f. remap_edges idx (conn m f)),
              bondtype := prune_types idx (conn m BONDS) (bondtype m)\<rparr>)"
proof -
  have rows: "list_all (list_all (\<lambda>e. e < numAtoms m)) (conn m f)" for f
    using ev by (cases f) (simp_all add: endpoints_valid_def)
  consider (none) "idx = []"
    | (bare) "conn m BONDS = []" "conn m DIHEDRALS = []" "conn m IMPROPERS = []" "conn m ANGLES = []"
    | (work) "idx \<noteq> []" "\<not> (conn m BONDS = [] \<and> conn m DIHEDRALS = [] \<and> conn m IMPROPERS = [] \<and> conn m ANGLES = [])"
    by blast
  then show ?thesis
  proof cases
    case none
    have "(\<lambda>f. remap_edges idx (conn m f)) = conn m" using none by simp
    moreover have "prune_types idx (conn m BONDS) (bondtype m) = bondtype m"
      using none bt by (simp add: prune_types_none)
    ultimately show ?thesis using none by (simp add: updateBondsAnglesDihedrals_def)
  next
    case bare
    have "(\<lambda>f. remap_edges idx (conn m f)) = conn m"
      by (rule cfield_ext) (simp_all add: bare remap_edges_def)
    moreover have "prune_types idx (conn m BONDS) (bondtype m) = bondtype m"
      using bare bt by (auto simp: prune_types_def)
    ultimately show ?thesis using bare by (simp add: updateBondsAnglesDihedrals_def)
  next
    case work
    have t: "removal_map (numAtoms m) idx = Ok (table (numAtoms m) idx)"
      using removal_map_closed [OF d r] by (simp add: table_def)
    have c: "(conn m)(BONDS := remap_edges idx (conn m BONDS), ANGLES := remap_edges idx (conn m ANGLES),
               DIHEDRALS := remap_edges idx (conn m DIHEDRALS), IMPROPERS := remap_edges idx (conn m IMPROPERS))
             = (\<lambda>f. remap_edges idx (conn m f))"
      by (rule cfield_ext) simp_all
    show ?thesis
      using work bt rows c
      by (auto simp: updateBondsAnglesDihedrals_def t update_field_closed)
  qed
qed


lemma in_atom_fields [simp]: "k \<in> set atom_fields"
  by (cases k) (simp_all add: atom_fields_def)

lemma distinct_atom_fields: "distinct atom_fields"
  by (simp add: atom_fields_def)

lemma columns_alignedD: "columns_aligned m \<Longrightarrow> length (atomf m k) = numAtoms m"
  using in_atom_fields [of k] by (auto simp: columns_aligned_def list_all_iff simp del: in_atom_fields)

lemma endpoints_validD: "endpoints_valid m \<Longrightarrow> list_all (list_all (\<lambda>e. e < numAtoms m)) (conn m f)"
  by (cases f) (simp_all add: endpoints_valid_def)

lemma np_delete_survivors:
  "list_all (\<lambda>i. i < length a) idx \<Longrightarrow> np_delete a idx = Ok (survivors idx a)"
  by (auto simp: np_delete_def survivors_def list_all_iff)

lemma for_each_delete_field:
  assumes "list_all (\<lambda>k. list_all (\<lambda>i. i < length (atomf m k)) idx) ks" "distinct ks"
  shows "for_each ks (delete_field idx) m =
     (None, m\<lparr>atomf := (\<lambda>k. if k \<in> set ks then survivors idx (atomf m k) else atomf m k)\<rparr>)"
  using assms
proof (induction ks arbitrary: m)
  case Nil
  then show ?case by simp
next
  case (Cons k ks)
  let ?m1 = "m\<lparr>atomf := (atomf m)(k := survivors idx (atomf m k))\<rparr>"
  have s: "delete_field idx k m = (None, ?m1)"
    using Cons.prems(1) by (simp add: delete_field_def np_delete_survivors)
  have "list_all (\<lambda>k'. list_all (\<lambda>i. i < length (atomf ?m1 k')) idx) ks"
    using Cons.prems by (auto simp: list_all_iff)
  then have "for_each ks (delete_field idx) ?m1 =
     (None, ?m1\<lparr>atomf := (\<lambda>k'. if k' \<in> set ks then survivors idx (atomf ?m1 k') else atomf ?m1 k')\<rparr>)"
    using Cons.IH [of ?m1] Cons.prems(2) by simp
  moreover have "(\<lambda>k'. if k' \<in> set ks then survivors idx (atomf ?m1 k') else atomf ?m1 k')
       = (\<lambda>k'. if k' \<in> set (k # ks) then survivors idx (atomf m k') else atomf m k')"
    using Cons.prems(2) by (auto simp: fun_eq_iff)
  ultimately show ?case using s by simp
qed

lemma remove_closed:
  assumes wf: "well_formed m" and d: "distinct idx" and r: "list_all (\<lambda>i. i < numAtoms m) idx"
  shows "remove_mol vmd (SelIdx idx) m =
     (Ok idx, m\<lparr>atomf := (\<lambda>k. survivors idx (atomf m k)),
                coords := (coords m)\<lparr>crows := survivors idx (crows (coords m))\<rparr>,
                conn := (\<lambda>f. remap_edges idx (conn m f)),
                bondtype := prune_types idx (conn m BONDS) (bondtype m)\<rparr>)"
proof -
  let ?m1 = "m\<lparr>conn := (\<lambda>f. remap_edges idx (conn m f)),
              bondtype := prune_types idx (conn m BONDS) (bondtype m)\<rparr>"
  have ev: "endpoints_valid m" and ca: "columns_aligned m"
    and bt: "bondtype m = [] \<or> length (bondtype m) = length (conn m BONDS)"
    and tr: "length (crows (coords m)) = numAtoms m"
    using wf by (simp_all add: well_formed_def invariant_def numAtomsTraj_def)
  have u: "updateBondsAnglesDihedrals idx m = (None, ?m1)"
    by (rule updateBondsAnglesDihedrals_closed [OF ev bt d r])
  have "list_all (\<lambda>k. list_all (\<lambda>i. i < length (atomf ?m1 k)) idx) atom_fields"
    using r by (simp add: list_all_iff columns_alignedD [OF ca])
  then have f: "for_each atom_fields (delete_field idx) ?m1 =
      (None, ?m1\<lparr>atomf := (\<lambda>k. survivors idx (atomf m k))\<rparr>)"
    using for_each_delete_field [of ?m1 idx atom_fields] distinct_atom_fields by simp
  have c: "np_delete (crows (coords m)) idx = Ok (survivors idx (crows (coords m)))"
    using r tr by (simp add: np_delete_survivors)
  show ?thesis
    by (simp add: remove_mol_def atomselect_def u f delete_coords_def c)
qed


lemma upt_split: "i < n \<Longrightarrow> [0..<n] = [0..<i] @ i # [Suc i..<n]"
  by (metis le_add2 le_add_same_cancel2 less_imp_add_positive upt_add_eq_append upt_conv_Cons)

lemma nth_filter_upt:
  assumes "i < n" "P i"
  shows "filter P [0..<n] ! length (filter P [0..<i]) = i"
proof -
  have "filter P [0..<n] = filter P [0..<i] @ i # filter P [Suc i..<n]"
    using assms by (simp add: upt_split [OF assms(1)])
  then show ?thesis by (simp add: nth_append)
qed

lemma new_position_bound:
  assumes "i < n" "i \<notin> set idx"
  shows "new_position idx i < length (filter (\<lambda>j. j \<notin> set idx) [0..<n])"
  using assms by (simp add: upt_split [OF assms(1)] new_position_def)

lemma nth_survivors:
  assumes "i < length a" "i \<notin> set idx"
  shows "survivors idx a ! new_position idx i = a ! i"
  using new_position_bound [OF assms] nth_filter_upt [of i "length a" "\<lambda>j. j \<notin> set idx"] assms
  by (simp add: survivors_def new_position_def)

lemma length_survivors:
  "distinct idx \<Longrightarrow> list_all (\<lambda>i. i < length a) idx \<Longrightarrow> length (survivors idx a) = length a - length idx"
  by (simp add: survivors_def count_survivors)

lemma new_position_mono:
  assumes "i < j" "i \<notin> set idx"
  shows "new_position idx i < new_position idx j"
  using assms by (simp add: upt_split [OF assms(1)] new_position_def)

text \<open>
  Claim C5. For a well-formed molecule and distinct atom indices below \<^verbatim>\<open>numAtoms\<close>,
  \<^verbatim>\<open>remove\<close> returns the indices and leaves: every per-atom column and \<^verbatim>\<open>coords\<close>
  without the removed rows; every connectivity field without the rows that touch a removed
  atom, the endpoints of the others translated by \<open>new_position\<close>; \<^verbatim>\<open>bondtype\<close>
  without the labels of the dropped bond rows. \<^verbatim>\<open>_updateBondsAnglesDihedrals\<close> computes
  this connectivity on the molecule as it is before any row is deleted. \<open>new_position\<close>
  of a surviving atom is below the new atom count, it is the row at which the atom's
  entry stands in every column after the deletion, and it keeps the order of the
  surviving atoms.
\<close>

theorem remove_remaps_connectivity:
  assumes "well_formed m" and "distinct idx" and "list_all (\<lambda>i. i < numAtoms m) idx"
  shows "remove_mol vmd (SelIdx idx) m =
           (Ok idx, m\<lparr>atomf := (\<lambda>k. survivors idx (atomf m k)),
                      coords := (coords m)\<lparr>crows := survivors idx (crows (coords m))\<rparr>,
                      conn := (\<lambda>f. remap_edges idx (conn m f)),
                      bondtype := prune_types idx (conn m BONDS) (bondtype m)\<rparr>)
       \<and> updateBondsAnglesDihedrals idx m =
           (None, m\<lparr>conn := (\<lambda>f. remap_edges idx (conn m f)),
                    bondtype := prune_types idx (conn m BONDS) (bondtype m)\<rparr>)
       \<and> (\<forall>i < numAtoms m. i \<notin> set idx \<longrightarrow>
             new_position idx i < numAtoms m - length idx
             \<and> (\<forall>k. survivors idx (atomf m k) ! new_position idx i = atomf m k ! i))
       \<and> (\<forall>i j. i < j \<and> i \<notin> set idx \<longrightarrow> new_position idx i < new_position idx j)"
proof (intro conjI allI impI)
  show "remove_mol vmd (SelIdx idx) m =
           (Ok idx, m\<lparr>atomf := (\<lambda>k. survivors idx (atomf m k)),
                      coords := (coords m)\<lparr>crows := survivors idx (crows (coords m))\<rparr>,
                      conn := (\<lambda>f. remap_edges idx (conn m f)),
                      bondtype := prune_types idx (conn m BONDS) (bondtype m)\<rparr>)"
    by (rule remove_closed [OF assms])
next
  show "updateBondsAnglesDihedrals idx m =
           (None, m\<lparr>conn := (\<lambda>f. remap_edges idx (conn m f)),
                    bondtype := prune_types idx (conn m BONDS) (bondtype m)\<rparr>)"
    using assms by (intro updateBondsAnglesDihedrals_closed) (simp_all add: well_formed_def invariant_def)
next
  fix i assume "i < numAtoms m" "i \<notin> set idx"
  then show "new_position idx i < numAtoms m - length idx"
    using new_position_less [OF assms(2,3)] by simp
next
  fix i k assume "i < numAtoms m" "i \<notin> set idx"
  moreover have "length (atomf m k) = numAtoms m"
    using assms(1) by (simp add: well_formed_def invariant_def columns_alignedD)
  ultimately show "survivors idx (atomf m k) ! new_position idx i = atomf m k ! i"
    by (simp add: nth_survivors)
next
  fix i j assume "i < j \<and> i \<notin> set idx"
  then show "new_position idx i < new_position idx j"
    by (simp add: new_position_mono)
qed

text \<open>
  The theorem at \<open>chain4\<close> with atom 1 removed: the bonds (0, 1) and (1, 2) and the
  angle (0, 1, 2) go, the bond (2, 3) becomes (1, 2) and keeps its type, the angle
  (0, 2, 3) becomes (0, 1, 2).
\<close>

theorem remove_remaps_connectivity_witness:
  "conn (snd (remove_mol no_vmd (SelIdx [1]) chain4)) BONDS = [[1, 2]]
   \<and> conn (snd (remove_mol no_vmd (SelIdx [1]) chain4)) ANGLES = [[0, 1, 2]]
   \<and> bondtype (snd (remove_mol no_vmd (SelIdx [1]) chain4)) = [''un'']
   \<and> atomf (snd (remove_mol no_vmd (SelIdx [1]) chain4)) SERIAL = [IntV 1, IntV 3, IntV 4]"
proof -
  have w: "well_formed chain4"
    by (simp add: well_formed_def invariant_def columns_aligned_def endpoints_valid_def chain4_def mol_eval)
  have n: "list_all (\<lambda>i. i < numAtoms chain4) [1]"
    by (simp add: chain4_def mol_eval)
  show ?thesis
    using remove_remaps_connectivity [OF w _ n, of no_vmd]
    by (simp add: remap_edges_def prune_types_def touches_def new_position_def survivors_def
        chain4_def mol_eval eval_nat_numeral)
qed


subsection \<open>Serial numbers\<close>

lemma numAtoms_serial_upd [simp]:
  "numAtoms (m\<lparr>atomf := (atomf m)(SERIAL := v)\<rparr>) = numAtoms m"
  by (simp add: numAtoms_def numAtomsTopo_def numAtomsTraj_def)

lemma insert_body_serial:
  "insert_body mol index appending self = (None, self') \<Longrightarrow>
   atomf self' SERIAL = map (\<lambda>i. IntV (int i)) [1..<numAtoms self' + 1]"
  by (auto simp: insert_body_def Let_def numAtoms_def numAtomsTopo_def numAtomsTraj_def
      split: if_splits prod.splits option.splits)

lemma insert_mol_serial:
  "insert_mol vmd mol index collisions self = (None, self') \<Longrightarrow>
   atomf self' SERIAL = map (\<lambda>i. IntV (int i)) [1..<numAtoms self' + 1]"
  by (auto simp: insert_mol_def Let_def split: result.splits prod.splits option.splits
      dest: insert_body_serial)

lemma select_by_index:
  "map (\<lambda>i. snd (ps ! i)) (filter (\<lambda>i. fst (ps ! i)) [0..<length ps]) = map snd (filter fst ps)"
proof (induction ps rule: rev_induct)
  case Nil
  then show ?case by simp
next
  case (snoc p ps)
  have f: "filter (\<lambda>i. fst ((ps @ [p]) ! i)) [0..<length ps] = filter (\<lambda>i. fst (ps ! i)) [0..<length ps]"
    by (rule filter_cong [OF refl]) (simp add: nth_append)
  have m: "map (\<lambda>i. snd ((ps @ [p]) ! i)) (filter (\<lambda>i. fst (ps ! i)) [0..<length ps])
         = map (\<lambda>i. snd (ps ! i)) (filter (\<lambda>i. fst (ps ! i)) [0..<length ps])"
    by (rule map_cong [OF refl]) (simp add: nth_append)
  show ?case using snoc by (simp add: f m)
qed

lemma survivors_np_where_not:
  assumes "length s = length a"
  shows "survivors (np_where (map Not s)) a = mask_select s a"
proof -
  let ?ps = "zip s a"
  have l: "length ?ps = length a" using assms by simp
  have "survivors (np_where (map Not s)) a
        = map (\<lambda>i. a ! i) (filter (\<lambda>i. i \<notin> set (np_where (map Not s))) [0..<length ?ps])"
    unfolding survivors_def l ..
  also have "\<dots> = map (\<lambda>i. a ! i) (filter (\<lambda>i. fst (?ps ! i)) [0..<length ?ps])"
  proof -
    have "filter (\<lambda>i. i \<notin> set (np_where (map Not s))) [0..<length ?ps]
        = filter (\<lambda>i. fst (?ps ! i)) [0..<length ?ps]"
      using assms by (intro filter_cong [OF refl]) (auto simp: np_where_def)
    then show ?thesis by (rule arg_cong)
  qed
  also have "\<dots> = map (\<lambda>i. snd (?ps ! i)) (filter (\<lambda>i. fst (?ps ! i)) [0..<length ?ps])"
    using assms by (intro map_cong [OF refl]) simp
  also have "\<dots> = map snd (filter fst ?ps)"
    by (rule select_by_index)
  finally show ?thesis by (simp add: mask_select_def)
qed

lemma np_where_distinct: "distinct (np_where s)"
  by (simp add: np_where_def)

lemma np_where_bound: "list_all (\<lambda>i. i < length s) (np_where s)"
  by (simp add: np_where_def list_all_iff)

lemma mask_select_all: "list_all (\<lambda>b. b) s \<Longrightarrow> length s = length a \<Longrightarrow> mask_select s a = a"
  by (induction s a rule: list_induct2') (auto simp: mask_select_def)

lemma filter_mol_serial:
  assumes wf: "well_formed m" and l: "length s = numAtoms m"
  shows "atomf (snd (filter_mol vmd (SelMask s) m)) SERIAL = mask_select s (atomf m SERIAL)"
proof (cases "list_all (\<lambda>b. b) s")
  case True
  then show ?thesis
    using l wf by (simp add: filter_mol_def atomselect_def mask_select_all well_formed_def invariant_def columns_alignedD)
next
  case False
  have r: "list_all (\<lambda>i. i < numAtoms m) (np_where (map Not s))"
    using np_where_bound [of "map Not s"] l by simp
  have "remove_mol vmd (SelMask (map Not s)) m = remove_mol vmd (SelIdx (np_where (map Not s))) m"
    by (simp add: remove_mol_def atomselect_def)
  then show ?thesis
    using False l wf remove_closed [OF wf np_where_distinct r, of vmd]
    by (simp add: filter_mol_def atomselect_def survivors_np_where_not well_formed_def invariant_def columns_alignedD)
qed

text \<open>
  Claim C8, as amended. After every \<^verbatim>\<open>insert\<close> and every \<^verbatim>\<open>append\<close> that completes
  without error, \<^verbatim>\<open>serial\<close> is 1, 2, ..., \<^verbatim>\<open>numAtoms\<close>. \<^verbatim>\<open>remove\<close> and
  \<^verbatim>\<open>filter\<close> do not renumber: on a well-formed molecule they delete the entries of the
  removed atoms from \<^verbatim>\<open>serial\<close> and leave the other entries as they were.
\<close>

theorem serial_after_atom_count_change:
  "(insert_mol vmd mol index collisions self = (None, self') \<longrightarrow>
      atomf self' SERIAL = map (\<lambda>i. IntV (int i)) [1..<numAtoms self' + 1])
   \<and> (append_mol vmd mol collisions self = (None, self') \<longrightarrow>
      atomf self' SERIAL = map (\<lambda>i. IntV (int i)) [1..<numAtoms self' + 1])
   \<and> (well_formed m \<and> distinct idx \<and> list_all (\<lambda>i. i < numAtoms m) idx \<longrightarrow>
      fst (remove_mol vmd (SelIdx idx) m) = Ok idx
      \<and> atomf (snd (remove_mol vmd (SelIdx idx) m)) SERIAL = survivors idx (atomf m SERIAL))
   \<and> (well_formed m \<and> length s = numAtoms m \<longrightarrow>
      atomf (snd (filter_mol vmd (SelMask s) m)) SERIAL = mask_select s (atomf m SERIAL))"
  using insert_mol_serial [of vmd mol index collisions self self']
    insert_mol_serial [of vmd mol "numAtoms self" collisions self self']
    remove_closed [of m idx vmd] filter_mol_serial [of m s vmd]
  by (simp add: append_mol_def)

text \<open>
  Claim C8 as stated fails for \<^verbatim>\<open>remove\<close>: removing atom 0 of \<open>chain4\<close>, whose
  serial numbers are 1, 2, 3, 4, leaves three atoms with the serial numbers 2, 3, 4.
\<close>

theorem remove_keeps_serial_values:
  "fst (remove_mol no_vmd (SelIdx [0]) chain4) = Ok [0]
   \<and> numAtoms (snd (remove_mol no_vmd (SelIdx [0]) chain4)) = 3
   \<and> atomf (snd (remove_mol no_vmd (SelIdx [0]) chain4)) SERIAL = [IntV 2, IntV 3, IntV 4]
   \<and> atomf (snd (remove_mol no_vmd (SelIdx [0]) chain4)) SERIAL \<noteq> map (\<lambda>i. IntV (int i)) [1..<3 + 1]"
  by code_simp

text \<open>
  The theorem at \<open>diatomic\<close> inserted into itself at index 1, and at \<open>chain4\<close>
  with atom 1 removed and with atom 1 filtered out.
\<close>

theorem serial_after_atom_count_change_witness:
  "fst (insert_mol no_vmd diatomic 1 None diatomic) = None
   \<and> atomf (snd (insert_mol no_vmd diatomic 1 None diatomic)) SERIAL = [IntV 1, IntV 2, IntV 3, IntV 4]
   \<and> atomf (snd (remove_mol no_vmd (SelIdx [1]) chain4)) SERIAL = [IntV 1, IntV 3, IntV 4]
   \<and> atomf (snd (filter_mol no_vmd (SelMask [True, False, True, True]) chain4)) SERIAL = [IntV 1, IntV 3, IntV 4]"
proof -
  have i: "fst (insert_mol no_vmd diatomic 1 None diatomic) = None"
    and n: "numAtoms (snd (insert_mol no_vmd diatomic 1 None diatomic)) = 4"
    by code_simp+
  then have e: "insert_mol no_vmd diatomic 1 None diatomic = (None, snd (insert_mol no_vmd diatomic 1 None diatomic))"
    by (simp add: prod_eq_iff)
  have w: "well_formed chain4" by code_simp
  have c: "numAtoms chain4 = 4" "atomf chain4 SERIAL = [IntV 1, IntV 2, IntV 3, IntV 4]"
    by code_simp+
  have v: "map (\<lambda>i. IntV (int i)) [1..<4 + 1] = [IntV 1, IntV 2, IntV 3, IntV 4]"
    "survivors [1] [IntV 1, IntV 2, IntV 3, IntV 4] = [IntV 1, IntV 3, IntV 4]"
    "mask_select [True, False, True, True] [IntV 1, IntV 2, IntV 3, IntV 4] = [IntV 1, IntV 3, IntV 4]"
    by code_simp+
  note T = serial_after_atom_count_change [of no_vmd diatomic 1 None diatomic
        "snd (insert_mol no_vmd diatomic 1 None diatomic)" chain4 "[1]" "[True, False, True, True]"]
  have a: "atomf (snd (insert_mol no_vmd diatomic 1 None diatomic)) SERIAL =
           map (\<lambda>i. IntV (int i)) [1..<numAtoms (snd (insert_mol no_vmd diatomic 1 None diatomic)) + 1]"
    using T e by blast
  have "well_formed chain4 \<and> distinct [1::nat] \<and> list_all (\<lambda>i. i < numAtoms chain4) [1]"
    using w c(1) by simp
  with T have b: "atomf (snd (remove_mol no_vmd (SelIdx [1]) chain4)) SERIAL = survivors [1] (atomf chain4 SERIAL)"
    by blast
  have "well_formed chain4 \<and> length [True, False, True, True] = numAtoms chain4"
    using w c(1) by simp
  with T have d: "atomf (snd (filter_mol no_vmd (SelMask [True, False, True, True]) chain4)) SERIAL
      = mask_select [True, False, True, True] (atomf chain4 SERIAL)"
    by blast
  show ?thesis
    unfolding a b d n c v using i by simp
qed


subsection \<open>Resolving a \<^verbatim>\<open>UniqueAtomID\<close> after a removal\<close>

lemma water_columns: "\<forall>f \<in> set uid_fields. length (atomf water f) = 3"
  by (simp add: water_def mol_eval uid_fields_def Let_def)

lemma np_where_map: "np_where (map P [0..<n]) = filter P [0..<n]"
  by (auto simp: np_where_def intro!: filter_cong)

lemma count_true_map: "length (filter (\<lambda>b. b) (map P xs)) = length (filter P xs)"
  by (induction xs) auto

lemma for_each_match_field:
  assumes "list_all (\<lambda>f. uid f \<noteq> None \<and> length (atomf mol f) = length sel) fs"
  shows "for_each fs (match_field uid mol []) sel =
     (None, map (\<lambda>i. sel ! i \<and> list_all (\<lambda>f. uid f = Some (atomf mol f ! i)) fs) [0..<length sel])"
  using assms
proof (induction fs arbitrary: sel)
  case Nil
  then show ?case by (simp add: map_nth)
next
  case (Cons f fs)
  obtain v where v: "uid f = Some v" using Cons.prems by auto
  let ?sel1 = "map (\<lambda>(a, b). a \<and> b) (zip sel (map (\<lambda>x. x = v) (atomf mol f)))"
  have l: "length (atomf mol f) = length sel" using Cons.prems by simp
  have s: "match_field uid mol [] f sel = (None, ?sel1)"
    using v l by (simp add: match_field_def)
  have n: "?sel1 = map (\<lambda>i. sel ! i \<and> atomf mol f ! i = v) [0..<length sel]"
    using l by (auto intro!: nth_equalityI)
  have "list_all (\<lambda>f. uid f \<noteq> None \<and> length (atomf mol f) = length ?sel1) fs"
    using Cons.prems l by (simp add: list_all_iff)
  from Cons.IH [OF this]
  have "for_each fs (match_field uid mol []) ?sel1 =
     (None, map (\<lambda>i. ?sel1 ! i \<and> list_all (\<lambda>f. uid f = Some (atomf mol f ! i)) fs) [0..<length ?sel1])" .
  moreover have "map (\<lambda>i. ?sel1 ! i \<and> list_all (\<lambda>f. uid f = Some (atomf mol f ! i)) fs) [0..<length ?sel1]
     = map (\<lambda>i. sel ! i \<and> list_all (\<lambda>f. uid f = Some (atomf mol f ! i)) (f # fs)) [0..<length sel]"
    using l v by (auto simp: n)
  ultimately show ?case using s by simp
qed

lemma selectAtom_closed:
  assumes ca: "columns_aligned mol" and u: "list_all (\<lambda>f. uid f \<noteq> None) uid_fields"
  shows "selectAtom uid mol True [] =
     (if 1 < length (matching_rows uid mol) then Raise AtomNotUnique
      else if length (matching_rows uid mol) = 0 then Raise AtomNotPresent
      else Ok (AtomIndex (matching_rows uid mol ! 0)))"
proof -
  have "list_all (\<lambda>f. uid f \<noteq> None \<and> length (atomf mol f) = length (replicate (numAtoms mol) True)) uid_fields"
    using u by (simp add: list_all_iff columns_alignedD [OF ca])
  from for_each_match_field [OF this]
  have "for_each uid_fields (match_field uid mol []) (replicate (numAtoms mol) True)
        = (None, map (matches_row uid mol) [0..<numAtoms mol])"
    by (simp add: matches_row_def cong: map_cong)
  then show ?thesis
    by (simp add: selectAtom_def np_where_map matching_rows_def comp_def)
qed


lemma positions_enum:
  "map (new_position idx) (filter (\<lambda>j. j \<notin> set idx) [0..<n])
     = [0..<length (filter (\<lambda>j. j \<notin> set idx) [0..<n])]"
  by (induction n) (simp_all add: new_position_def)

lemma matches_row_survivor:
  assumes "\<And>f. atomf m' f = survivors idx (atomf m f)"
    and "\<And>f. length (atomf m f) = n" and "j < n" and "j \<notin> set idx"
  shows "matches_row uid m' (new_position idx j) = matches_row uid m j"
  using assms by (simp add: matches_row_def nth_survivors)

lemma matching_rows_removed:
  assumes a: "\<And>f. atomf m' f = survivors idx (atomf m f)"
    and l: "\<And>f. length (atomf m f) = numAtoms m"
    and n: "numAtoms m' = numAtoms m - length idx"
    and d: "distinct idx" and r: "list_all (\<lambda>i. i < numAtoms m) idx"
  shows "matching_rows uid m' = map (new_position idx) (filter (\<lambda>j. j \<notin> set idx) (matching_rows uid m))"
proof -
  let ?S = "filter (\<lambda>j. j \<notin> set idx) [0..<numAtoms m]"
  have "[0..<numAtoms m'] = map (new_position idx) ?S"
    using positions_enum [of idx "numAtoms m"] count_survivors [OF d r] n by simp
  then have "matching_rows uid m' = map (new_position idx) (filter (matches_row uid m' \<circ> new_position idx) ?S)"
    by (simp add: matching_rows_def filter_map)
  also have "filter (matches_row uid m' \<circ> new_position idx) ?S = filter (matches_row uid m) ?S"
    by (rule filter_cong [OF refl]) (simp add: matches_row_survivor [OF a l])
  also have "\<dots> = filter (\<lambda>j. j \<notin> set idx) (matching_rows uid m)"
    by (simp add: matching_rows_def conj_commute)
  finally show ?thesis .
qed

lemma removed_numAtoms:
  assumes wf: "well_formed m" and d: "distinct idx" and r: "list_all (\<lambda>i. i < numAtoms m) idx"
  shows "numAtoms (snd (remove_mol vmd (SelIdx idx) m)) = numAtoms m - length idx"
proof -
  define N where "N = numAtoms m"
  have "length (atomf m RECORD) = N" "length (crows (coords m)) = N"
    using wf by (simp_all add: N_def well_formed_def invariant_def columns_alignedD numAtomsTraj_def)
  moreover have "list_all (\<lambda>i. i < N) idx" using r by (simp add: N_def)
  ultimately have "numAtoms (snd (remove_mol vmd (SelIdx idx) m)) = N - length idx"
    unfolding remove_closed [OF wf d r] numAtoms_def numAtomsTopo_def numAtomsTraj_def
    using d by (simp add: length_survivors Let_def)
  then show ?thesis by (simp add: N_def)
qed

lemma removed_columns_aligned:
  assumes wf: "well_formed m" and d: "distinct idx" and r: "list_all (\<lambda>i. i < numAtoms m) idx"
  shows "columns_aligned (snd (remove_mol vmd (SelIdx idx) m))"
proof -
  have l: "length (atomf m k) = numAtoms m" for k
    using wf by (simp add: well_formed_def invariant_def columns_alignedD)
  have "list_all (\<lambda>k. length (atomf (snd (remove_mol vmd (SelIdx idx) m)) k) = numAtoms m - length idx) atom_fields"
    using r d by (simp add: remove_closed [OF wf d r] list_all_iff length_survivors l)
  then show ?thesis
    unfolding columns_aligned_def removed_numAtoms [OF wf d r] .
qed

lemma fromMolecule_idx:
  assumes "fromMolecule vmd m None (Some i) = Ok uid"
  shows "uid = (\<lambda>f. if f \<in> set uid_fields then Some (atomf m f ! i) else None)"
  using assms by (auto simp: fromMolecule_def split: if_splits)

text \<open>
  Claim C7, as amended. For a well-formed molecule, a \<^verbatim>\<open>UniqueAtomID\<close> captured from
  its atom \<open>i\<close> and a removal of distinct atom indices: the captured atom matches its
  own snapshot, and \<^verbatim>\<open>selectAtom\<close> on the molecule after the removal looks at the
  matching rows that survive. One survivor: its new (shifted) index. None:
  \<open>AtomNotPresent\<close> (SelectionEmpty). More: \<open>AtomNotUnique\<close> (SelectionAmbiguous).
  So when the captured atom is the only row that matches the snapshot, \<^verbatim>\<open>selectAtom\<close>
  returns its new index after a removal of other atoms and raises SelectionEmpty after a
  removal of the atom itself; and on any molecule with aligned columns in which more
  than one row matches, it raises SelectionAmbiguous.
\<close>

theorem selectAtom_after_remove:
  assumes wf: "well_formed m" and i: "i < numAtoms m"
    and uid: "fromMolecule vmd m None (Some i) = Ok uid"
    and d: "distinct idx" and r: "list_all (\<lambda>j. j < numAtoms m) idx"
  shows "fst (remove_mol vmd (SelIdx idx) m) = Ok idx
     \<and> i \<in> set (matching_rows uid m)
     \<and> selectAtom uid (snd (remove_mol vmd (SelIdx idx) m)) True [] =
         (case filter (\<lambda>j. j \<notin> set idx) (matching_rows uid m) of
            [] \<Rightarrow> Raise AtomNotPresent
          | [j] \<Rightarrow> Ok (AtomIndex (new_position idx j))
          | j # k # rest \<Rightarrow> Raise AtomNotUnique)
     \<and> (matching_rows uid m = [i] \<and> i \<notin> set idx \<longrightarrow>
          selectAtom uid (snd (remove_mol vmd (SelIdx idx) m)) True [] = Ok (AtomIndex (new_position idx i)))
     \<and> (matching_rows uid m = [i] \<and> i \<in> set idx \<longrightarrow>
          selectAtom uid (snd (remove_mol vmd (SelIdx idx) m)) True [] = Raise AtomNotPresent)
     \<and> (columns_aligned mol \<and> 1 < length (matching_rows uid mol) \<longrightarrow>
          selectAtom uid mol True [] = Raise AtomNotUnique)"
proof -
  let ?m' = "snd (remove_mol vmd (SelIdx idx) m)"
  have u: "uid = (\<lambda>f. if f \<in> set uid_fields then Some (atomf m f ! i) else None)"
    by (rule fromMolecule_idx [OF uid])
  then have un: "list_all (\<lambda>f. uid f \<noteq> None) uid_fields"
    by (simp add: list_all_iff)
  have l: "length (atomf m f) = numAtoms m" for f
    using wf by (simp add: well_formed_def invariant_def columns_alignedD)
  have a: "atomf ?m' f = survivors idx (atomf m f)" for f
    by (simp add: remove_closed [OF wf d r])
  have mr: "matching_rows uid ?m' = map (new_position idx) (filter (\<lambda>j. j \<notin> set idx) (matching_rows uid m))"
    by (rule matching_rows_removed [OF a l removed_numAtoms [OF wf d r] d r])
  have sel: "selectAtom uid ?m' True [] =
         (case filter (\<lambda>j. j \<notin> set idx) (matching_rows uid m) of
            [] \<Rightarrow> Raise AtomNotPresent
          | [j] \<Rightarrow> Ok (AtomIndex (new_position idx j))
          | j # k # rest \<Rightarrow> Raise AtomNotUnique)"
    unfolding selectAtom_closed [OF removed_columns_aligned [OF wf d r] un] mr
    by (simp split: list.splits)
  have mem: "i \<in> set (matching_rows uid m)"
    using i by (simp add: matching_rows_def matches_row_def u list_all_iff)
  have amb: "columns_aligned mol \<Longrightarrow> 1 < length (matching_rows uid mol) \<Longrightarrow>
          selectAtom uid mol True [] = Raise AtomNotUnique"
    using un by (simp add: selectAtom_closed)
  show ?thesis
    using sel mem amb by (auto simp: remove_closed [OF wf d r])
qed

text \<open>
  The theorem at \<open>backbone\<close> and the snapshot of its atom 2: after atom 0 is removed
  the atom is found at index 1, after atom 2 is removed it is no longer present; and on
  \<open>water\<close> the snapshot of a hydrogen is not unique.
\<close>

theorem selectAtom_after_remove_witness:
  "selectAtom backbone_c (snd (remove_mol no_vmd (SelIdx [0]) backbone)) True [] = Ok (AtomIndex 1)
   \<and> selectAtom backbone_c (snd (remove_mol no_vmd (SelIdx [2]) backbone)) True [] = Raise AtomNotPresent
   \<and> selectAtom water_h water True [] = Raise AtomNotUnique"
proof -
  have w: "well_formed backbone" and n: "2 < numAtoms backbone"
    and r0: "list_all (\<lambda>j. j < numAtoms backbone) [0]" and r2: "list_all (\<lambda>j. j < numAtoms backbone) [2]"
    by code_simp+
  have "\<forall>f \<in> set uid_fields. length (atomf backbone f) = 4"
    by (simp add: backbone_def mol_eval uid_fields_def Let_def)
  then have u: "fromMolecule no_vmd backbone None (Some 2) = Ok backbone_c"
    by (simp add: fromMolecule_def backbone_c_def cong: if_cong)
  have m: "matching_rows backbone_c backbone = [2]" and p: "new_position [0] 2 = 1"
    by code_simp+
  have d0: "distinct [0::nat]" and d2: "distinct [2::nat]" and dn: "distinct ([]::nat list)"
    by simp_all
  have ww: "well_formed water" and wn: "1 < numAtoms water"
    and wr: "list_all (\<lambda>j. j < numAtoms water) []"
    and wa: "columns_aligned water" and a: "1 < length (matching_rows water_h water)"
    by code_simp+
  have wu: "fromMolecule no_vmd water None (Some 1) = Ok water_h"
    using water_columns by (simp add: fromMolecule_def water_h_def cong: if_cong)
  have "selectAtom backbone_c (snd (remove_mol no_vmd (SelIdx [0]) backbone)) True []
        = Ok (AtomIndex (new_position [0] 2))"
    using selectAtom_after_remove [OF w n u d0 r0] m by simp
  moreover have "selectAtom backbone_c (snd (remove_mol no_vmd (SelIdx [2]) backbone)) True []
        = Raise AtomNotPresent"
    using selectAtom_after_remove [OF w n u d2 r2] m by simp
  moreover have "selectAtom water_h water True [] = Raise AtomNotUnique"
    using selectAtom_after_remove [OF ww wn wu dn wr, of water] wa a by blast
  ultimately show ?thesis by (simp add: p)
qed

text \<open>
  Claim C7 as stated fails where another row matches the snapshot: after removing atom 1
  of \<open>water\<close>, the atom the snapshot \<open>water_h\<close> was captured from,
  \<^verbatim>\<open>selectAtom\<close> does not raise SelectionEmpty but returns index 1, the other
  hydrogen.
\<close>

theorem selectAtom_finds_twin:
  "fromMolecule no_vmd water None (Some 1) = Ok water_h
   \<and> fst (remove_mol no_vmd (SelIdx [1]) water) = Ok [1]
   \<and> selectAtom water_h (snd (remove_mol no_vmd (SelIdx [1]) water)) True [] = Ok (AtomIndex 1)"
proof -
  have "fromMolecule no_vmd water None (Some 1) = Ok water_h"
    using water_columns by (simp add: fromMolecule_def water_h_def cong: if_cong)
  moreover have "fst (remove_mol no_vmd (SelIdx [1]) water) = Ok [1]
     \<and> selectAtom water_h (snd (remove_mol no_vmd (SelIdx [1]) water)) True [] = Ok (AtomIndex 1)"
    by code_simp
  ultimately show ?thesis by simp
qed


subsection \<open>Reordering\<close>

lemma first_index_of_Some:
  "i \<in> set xs \<Longrightarrow> \<exists>j. first_index_of xs i = Some j \<and> j < length xs \<and> xs ! j = i"
  by (induction xs) auto

lemma first_index_of_None: "(first_index_of xs i = None) = (i \<notin> set xs)"
  by (induction xs) auto

lemma first_index_of_nth:
  "distinct xs \<Longrightarrow> j < length xs \<Longrightarrow> first_index_of xs (xs ! j) = Some j"
proof (induction xs arbitrary: j)
  case Nil
  then show ?case by simp
next
  case (Cons x xs)
  then show ?case by (cases j) auto
qed

lemma permD:
  assumes "is_permutation n order"
  shows "length order = n" "distinct order" "set order = {0..<n}"
proof -
  show l: "length order = n" and d: "distinct order"
    using assms by (simp_all add: is_permutation_def)
  have "set order \<subseteq> {0..<n}"
    using assms by (auto simp: is_permutation_def list_all_iff)
  moreover have "card (set order) = card {0..<n}"
    using l d by (simp add: distinct_card)
  ultimately show "set order = {0..<n}"
    by (intro card_subset_eq) simp_all
qed

lemma inverse_order_perm:
  assumes p: "is_permutation n order"
  shows "inverse_order order = Ok (map (\<lambda>i. the (first_index_of order i)) [0..<n])"
  using permD [OF p] by (auto simp: inverse_order_def first_index_of_None)


lemma index_by_perm:
  assumes p: "is_permutation n order" and l: "length a = n"
  shows "a = [] \<or> index_by a order = Ok (map (\<lambda>i. a ! i) order)"
proof (cases "a = []")
  case True
  then show ?thesis by simp
next
  case False
  then have "order \<noteq> []" using permD(1) [OF p] l by auto
  moreover have "\<not> (\<exists>i \<in> set order. length a \<le> i)"
    using permD(3) [OF p] l by auto
  ultimately show ?thesis by (simp add: index_by_def take_rows_def)
qed

lemma reorder_field_perm:
  assumes p: "is_permutation n order" and l: "length (atomf m k) = n"
  shows "reorder_field order k m = (None, m\<lparr>atomf := (atomf m)(k := map (\<lambda>i. atomf m k ! i) order)\<rparr>)"
proof (cases "atomf m k = []")
  case True
  then have "order = []" using permD(1) [OF p] l by auto
  moreover have "(atomf m)(k := []) = atomf m" using True by (metis fun_upd_triv)
  ultimately show ?thesis using True by (simp add: reorder_field_def)
next
  case False
  then show ?thesis using index_by_perm [OF p l] by (simp add: reorder_field_def)
qed

lemma for_each_reorder_field:
  assumes "is_permutation n order" "list_all (\<lambda>k. length (atomf m k) = n) ks" "distinct ks"
  shows "for_each ks (reorder_field order) m =
     (None, m\<lparr>atomf := (\<lambda>k. if k \<in> set ks then map (\<lambda>i. atomf m k ! i) order else atomf m k)\<rparr>)"
  using assms
proof (induction ks arbitrary: m)
  case Nil
  then show ?case by simp
next
  case (Cons k ks)
  let ?m1 = "m\<lparr>atomf := (atomf m)(k := map (\<lambda>i. atomf m k ! i) order)\<rparr>"
  have s: "reorder_field order k m = (None, ?m1)"
    using Cons.prems by (simp add: reorder_field_perm)
  have "list_all (\<lambda>k'. length (atomf ?m1 k') = n) ks"
    using Cons.prems by (auto simp: list_all_iff)
  then have "for_each ks (reorder_field order) ?m1 =
     (None, ?m1\<lparr>atomf := (\<lambda>k'. if k' \<in> set ks then map (\<lambda>i. atomf ?m1 k' ! i) order else atomf ?m1 k')\<rparr>)"
    using Cons.IH [of ?m1] Cons.prems by simp
  moreover have "(\<lambda>k'. if k' \<in> set ks then map (\<lambda>i. atomf ?m1 k' ! i) order else atomf ?m1 k')
       = (\<lambda>k'. if k' \<in> set (k # ks) then map (\<lambda>i. atomf m k' ! i) order else atomf m k')"
    using Cons.prems(3) by (auto simp: fun_eq_iff)
  ultimately show ?case using s by simp
qed

lemma reorder_coords_perm:
  assumes p: "is_permutation n order"
    and l: "crows (coords m) = [] \<or> (0 < n \<and> n \<le> length (crows (coords m)))"
  shows "reorder_coords order m =
     (None, if crows (coords m) = [] then m
            else m\<lparr>coords := (coords m)\<lparr>crows := map (\<lambda>i. crows (coords m) ! i) order\<rparr>\<rparr>)"
proof (cases "crows (coords m) = []")
  case True
  then show ?thesis by (simp add: reorder_coords_def)
next
  case False
  then have n: "0 < n" "n \<le> length (crows (coords m))" using l by simp_all
  have "order \<noteq> []" using permD(1) [OF p] n by auto
  moreover have "\<not> (\<exists>i \<in> set order. length (crows (coords m)) \<le> i)"
    using permD(3) [OF p] n by auto
  ultimately show ?thesis
    using False by (simp add: reorder_coords_def index_by_def take_rows_def)
qed

lemma reorder_coords_short:
  assumes p: "is_permutation n order"
    and l: "0 < length (crows (coords m))" "length (crows (coords m)) < n"
  shows "reorder_coords order m = (Some IndexError, m)"
proof -
  have "length (crows (coords m)) \<in> set order"
    using permD(3) [OF p] l by simp
  then have "\<exists>i \<in> set order. length (crows (coords m)) \<le> i" by blast
  then show ?thesis
    using l by (simp add: reorder_coords_def index_by_def take_rows_def)
qed

lemma reorder_conn_closed:
  assumes "list_all (list_all (\<lambda>e. e < length ivs)) (conn m f)"
  shows "reorder_conn ivs f m = (None, m\<lparr>conn := (conn m)(f := map (map (\<lambda>e. ivs ! e)) (conn m f))\<rparr>)"
proof (cases "conn m f = []")
  case True
  moreover have "(conn m)(f := []) = conn m" using True by (metis fun_upd_triv)
  ultimately show ?thesis by (simp add: reorder_conn_def)
next
  case False
  moreover have "\<not> (\<exists>r \<in> set (conn m f). \<exists>e \<in> set r. length ivs \<le> e)"
    using assms by (fastforce simp: list_all_iff)
  ultimately show ?thesis by (simp add: reorder_conn_def)
qed

lemma reorderAtoms_closed:
  assumes p: "is_permutation (numAtoms m) order" and iv: "invariant m"
    and tr: "numAtomsTraj m = 0 \<or> numAtoms m \<le> numAtomsTraj m"
  shows "reorderAtoms order m =
     (None, m\<lparr>atomf := (\<lambda>k. map (\<lambda>i. atomf m k ! i) order),
              coords := (if crows (coords m) = [] then coords m
                         else (coords m)\<lparr>crows := map (\<lambda>i. crows (coords m) ! i) order\<rparr>),
              conn := (\<lambda>f. map (map (\<lambda>e. the (first_index_of order e))) (conn m f))\<rparr>)"
proof -
  let ?inv = "map (\<lambda>i. the (first_index_of order i)) [0..<numAtoms m]"
  let ?m1 = "m\<lparr>atomf := (\<lambda>k. map (\<lambda>i. atomf m k ! i) order)\<rparr>"
  let ?m2 = "?m1\<lparr>coords := (if crows (coords m) = [] then coords m
                         else (coords m)\<lparr>crows := map (\<lambda>i. crows (coords m) ! i) order\<rparr>)\<rparr>"
  have ca: "list_all (\<lambda>k. length (atomf m k) = numAtoms m) atom_fields"
    using iv by (simp add: invariant_def columns_aligned_def)
  have a: "for_each atom_fields (reorder_field order) m = (None, ?m1)"
    using for_each_reorder_field [OF p ca distinct_atom_fields] by simp
  have "crows (coords ?m1) = [] \<or> (0 < numAtoms m \<and> numAtoms m \<le> length (crows (coords ?m1)))"
    using tr by (auto simp: numAtomsTraj_def numAtoms_def Let_def)
  from reorder_coords_perm [OF p this] have c: "reorder_coords order ?m1 = (None, ?m2)"
    by simp
  have i: "inverse_order order = Ok ?inv"
    by (rule inverse_order_perm [OF p])
  have rows: "list_all (list_all (\<lambda>e. e < length ?inv)) (conn m f)" for f
    using endpoints_validD [of m f] iv by (simp add: invariant_def)
  have e: "map (map (\<lambda>e. ?inv ! e)) (conn m f) = map (map (\<lambda>e. the (first_index_of order e))) (conn m f)" for f
    using rows [of f] by (auto simp: list_all_iff)
  have g: "(conn m)(BONDS := map (map (\<lambda>e. the (first_index_of order e))) (conn m BONDS),
              ANGLES := map (map (\<lambda>e. the (first_index_of order e))) (conn m ANGLES),
              DIHEDRALS := map (map (\<lambda>e. the (first_index_of order e))) (conn m DIHEDRALS),
              IMPROPERS := map (map (\<lambda>e. the (first_index_of order e))) (conn m IMPROPERS))
        = (\<lambda>f. map (map (\<lambda>e. the (first_index_of order e))) (conn m f))"
    by (rule cfield_ext) simp_all
  have f: "for_each [BONDS, ANGLES, DIHEDRALS, IMPROPERS] (reorder_conn ?inv) ?m2 =
           (None, ?m2\<lparr>conn := (\<lambda>f. map (map (\<lambda>e. the (first_index_of order e))) (conn m f))\<rparr>)"
    using rows by (simp add: reorder_conn_closed e g)
  show ?thesis
    by (simp add: reorderAtoms_def a c i f del: for_each.simps)
qed

text \<open>
  Where \<^verbatim>\<open>coords\<close> has rows, but fewer than there are atoms, the columns are reordered
  and indexing \<^verbatim>\<open>coords\<close> by \<open>order\<close> raises.
\<close>

lemma reorderAtoms_short_coords:
  assumes p: "is_permutation (numAtoms m) order" and iv: "invariant m"
    and tr: "0 < numAtomsTraj m" "numAtomsTraj m < numAtoms m"
  shows "reorderAtoms order m = (Some IndexError, m\<lparr>atomf := (\<lambda>k. map (\<lambda>i. atomf m k ! i) order)\<rparr>)"
proof -
  let ?m1 = "m\<lparr>atomf := (\<lambda>k. map (\<lambda>i. atomf m k ! i) order)\<rparr>"
  have ca: "list_all (\<lambda>k. length (atomf m k) = numAtoms m) atom_fields"
    using iv by (simp add: invariant_def columns_aligned_def)
  have a: "for_each atom_fields (reorder_field order) m = (None, ?m1)"
    using for_each_reorder_field [OF p ca distinct_atom_fields] by simp
  have "0 < length (crows (coords ?m1))" "length (crows (coords ?m1)) < numAtoms m"
    using tr by (simp_all add: numAtomsTraj_def)
  from reorder_coords_short [OF p this] have c: "reorder_coords order ?m1 = (Some IndexError, ?m1)" .
  show ?thesis
    by (simp add: reorderAtoms_def a c del: for_each.simps)
qed

text \<open>
  Claim C4. For a molecule that satisfies the invariant, whose \<^verbatim>\<open>coords\<close> have no row
  at all (a topology without a trajectory) or a row for every atom (one per atom where
  a trajectory was read; the statement also holds where there are more), and a permutation
  \<open>order\<close> of its atom indices, \<^verbatim>\<open>reorderAtoms\<close> completes and: every per-atom
  column keeps its length and has at row \<open>i\<close> what it had at row \<open>order ! i\<close>; so
  has \<^verbatim>\<open>coords\<close>, whose rows hold all frames, at the row of each atom when it has
  rows, and the number of frames stays; every connectivity endpoint is mapped through the
  inverse of \<open>order\<close>, row by row; \<^verbatim>\<open>bondtype\<close> is unchanged, so a label stays
  with its row.
  On the molecule of Scenario A with the permutation [1, 2, 4, 3, 0, 7, 5, 6] the names
  become C3, H, S, O, C1, H1, N, H3 and the bonds (4, 3), (0, 2), (5, 1).
\<close>

theorem reorderAtoms_permutes:
  "(is_permutation (numAtoms m) order \<and> invariant m
      \<and> (numAtomsTraj m = 0 \<or> numAtoms m \<le> numAtomsTraj m) \<longrightarrow>
      fst (reorderAtoms order m) = None
      \<and> (\<forall>k. length (atomf (snd (reorderAtoms order m)) k) = numAtoms m
            \<and> (\<forall>i < numAtoms m. atomf (snd (reorderAtoms order m)) k ! i = atomf m k ! (order ! i)))
      \<and> length (crows (coords (snd (reorderAtoms order m)))) = min (numAtomsTraj m) (numAtoms m)
      \<and> cframes (coords (snd (reorderAtoms order m))) = cframes (coords m)
      \<and> (\<forall>i < min (numAtomsTraj m) (numAtoms m).
            crows (coords (snd (reorderAtoms order m))) ! i = crows (coords m) ! (order ! i))
      \<and> (\<exists>inverse. length inverse = numAtoms m
            \<and> (\<forall>i < numAtoms m. inverse ! (order ! i) = i \<and> order ! (inverse ! i) = i)
            \<and> (\<forall>f. conn (snd (reorderAtoms order m)) f = map (map (\<lambda>e. inverse ! e)) (conn m f)))
      \<and> bondtype (snd (reorderAtoms order m)) = bondtype m)
   \<and> fst (reorderAtoms [1, 2, 4, 3, 0, 7, 5, 6] scenario_a) = None
   \<and> atomf scenario_a NAME =
        [StrV ''C1'', StrV ''C3'', StrV ''H'', StrV ''O'', StrV ''S'', StrV ''N'', StrV ''H3'', StrV ''H1'']
   \<and> conn scenario_a BONDS = [[0, 3], [1, 4], [7, 2]]
   \<and> atomf (snd (reorderAtoms [1, 2, 4, 3, 0, 7, 5, 6] scenario_a)) NAME =
        [StrV ''C3'', StrV ''H'', StrV ''S'', StrV ''O'', StrV ''C1'', StrV ''H1'', StrV ''N'', StrV ''H3'']
   \<and> conn (snd (reorderAtoms [1, 2, 4, 3, 0, 7, 5, 6] scenario_a)) BONDS = [[4, 3], [0, 2], [5, 1]]"
proof (intro conjI impI)
  assume h: "is_permutation (numAtoms m) order \<and> invariant m
      \<and> (numAtomsTraj m = 0 \<or> numAtoms m \<le> numAtomsTraj m)"
  then have p: "is_permutation (numAtoms m) order" and iv: "invariant m"
    and tr: "numAtomsTraj m = 0 \<or> numAtoms m \<le> numAtomsTraj m" by simp_all
  note c = reorderAtoms_closed [OF p iv tr]
  note pd = permD [OF p]
  have l: "length (atomf m k) = numAtoms m" for k
    using iv by (simp add: invariant_def columns_alignedD)
  show "fst (reorderAtoms order m) = None" by (simp add: c)
  show "\<forall>k. length (atomf (snd (reorderAtoms order m)) k) = numAtoms m
            \<and> (\<forall>i < numAtoms m. atomf (snd (reorderAtoms order m)) k ! i = atomf m k ! (order ! i))"
    by (simp add: c pd)
  show "length (crows (coords (snd (reorderAtoms order m)))) = min (numAtomsTraj m) (numAtoms m)"
    using tr by (auto simp: c pd numAtomsTraj_def)
  show "cframes (coords (snd (reorderAtoms order m))) = cframes (coords m)"
    by (simp add: c)
  show "\<forall>i < min (numAtomsTraj m) (numAtoms m).
          crows (coords (snd (reorderAtoms order m))) ! i = crows (coords m) ! (order ! i)"
    using tr by (auto simp: c pd numAtomsTraj_def)
  show "bondtype (snd (reorderAtoms order m)) = bondtype m"
    by (simp add: c)
  show "\<exists>inverse. length inverse = numAtoms m
            \<and> (\<forall>i < numAtoms m. inverse ! (order ! i) = i \<and> order ! (inverse ! i) = i)
            \<and> (\<forall>f. conn (snd (reorderAtoms order m)) f = map (map (\<lambda>e. inverse ! e)) (conn m f))"
  proof (intro exI conjI allI impI)
    let ?inv = "map (\<lambda>e. the (first_index_of order e)) [0..<numAtoms m]"
    show "length ?inv = numAtoms m" by simp
    fix i assume i: "i < numAtoms m"
    then have "order ! i < numAtoms m" using pd by (metis atLeastLessThan_iff nth_mem)
    then show "?inv ! (order ! i) = i"
      using i pd by (simp add: first_index_of_nth)
    have "i \<in> set order" using i pd by simp
    from first_index_of_Some [OF this] show "order ! (?inv ! i) = i"
      using i by auto
  next
    fix f
    have "list_all (list_all (\<lambda>e. e < numAtoms m)) (conn m f)"
      using endpoints_validD [of m f] iv by (simp add: invariant_def)
    then have "map (map (\<lambda>e. the (first_index_of order e))) (conn m f)
        = map (map (\<lambda>e. map (\<lambda>e. the (first_index_of order e)) [0..<numAtoms m] ! e)) (conn m f)"
      by (auto simp: list_all_iff)
    then show "conn (snd (reorderAtoms order m)) f
       = map (map (\<lambda>e. map (\<lambda>e. the (first_index_of order e)) [0..<numAtoms m] ! e)) (conn m f)"
      by (simp add: c)
  qed
qed code_simp+

text \<open>
  The general part of the theorem at Scenario A (rows 0 and 4 of the names, row 2 of the
  coordinates and the bond types) and at \<open>topology_water\<close>, which has no coordinates,
  with the order [1, 0, 2] that puts the oxygen first.
\<close>

theorem reorderAtoms_permutes_witness:
  "atomf (snd (reorderAtoms [1, 2, 4, 3, 0, 7, 5, 6] scenario_a)) NAME ! 0 = StrV ''C3''
   \<and> atomf (snd (reorderAtoms [1, 2, 4, 3, 0, 7, 5, 6] scenario_a)) NAME ! 4 = StrV ''C1''
   \<and> crows (coords (snd (reorderAtoms [1, 2, 4, 3, 0, 7, 5, 6] scenario_a))) ! 2 = [[4], [8], [12]]
   \<and> bondtype (snd (reorderAtoms [1, 2, 4, 3, 0, 7, 5, 6] scenario_a)) = [''un'', ''1'', ''2'']
   \<and> fst (reorderAtoms [1, 0, 2] topology_water) = None
   \<and> atomf (snd (reorderAtoms [1, 0, 2] topology_water)) NAME ! 0 = StrV ''O''
   \<and> atomf (snd (reorderAtoms [1, 0, 2] topology_water)) NAME ! 1 = StrV ''H1''
   \<and> crows (coords (snd (reorderAtoms [1, 0, 2] topology_water))) = []
   \<and> conn (snd (reorderAtoms [1, 0, 2] topology_water)) BONDS = [[0, 1], [0, 2]]
   \<and> conn (snd (reorderAtoms [1, 0, 2] topology_water)) ANGLES = [[1, 0, 2]]
   \<and> bondtype (snd (reorderAtoms [1, 0, 2] topology_water)) = [''1'', ''2'']"
proof -
  have h: "is_permutation (numAtoms scenario_a) [1, 2, 4, 3, 0, 7, 5, 6] \<and> invariant scenario_a
      \<and> (numAtomsTraj scenario_a = 0 \<or> numAtoms scenario_a \<le> numAtomsTraj scenario_a)"
    by code_simp
  have n: "numAtoms scenario_a = 8" "numAtomsTraj scenario_a = 8" by code_simp+
  have v: "atomf scenario_a NAME ! ([1, 2, 4, 3, 0, 7, 5, 6] ! 0) = StrV ''C3''"
    "atomf scenario_a NAME ! ([1, 2, 4, 3, 0, 7, 5, 6] ! 4) = StrV ''C1''"
    "crows (coords scenario_a) ! ([1, 2, 4, 3, 0, 7, 5, 6] ! 2) = [[4], [8], [12]]"
    "bondtype scenario_a = [''un'', ''1'', ''2'']"
    by code_simp+
  note T = reorderAtoms_permutes [of scenario_a "[1, 2, 4, 3, 0, 7, 5, 6]", THEN conjunct1, rule_format, OF h]
  have a0: "atomf (snd (reorderAtoms [1, 2, 4, 3, 0, 7, 5, 6] scenario_a)) NAME ! 0
        = atomf scenario_a NAME ! ([1, 2, 4, 3, 0, 7, 5, 6] ! 0)"
    using T n by simp
  have a4: "atomf (snd (reorderAtoms [1, 2, 4, 3, 0, 7, 5, 6] scenario_a)) NAME ! 4
        = atomf scenario_a NAME ! ([1, 2, 4, 3, 0, 7, 5, 6] ! 4)"
    using T n by simp
  have c2: "crows (coords (snd (reorderAtoms [1, 2, 4, 3, 0, 7, 5, 6] scenario_a))) ! 2
        = crows (coords scenario_a) ! ([1, 2, 4, 3, 0, 7, 5, 6] ! 2)"
    using T n by simp
  have bt: "bondtype (snd (reorderAtoms [1, 2, 4, 3, 0, 7, 5, 6] scenario_a)) = bondtype scenario_a"
    using T by simp
  have h': "is_permutation (numAtoms topology_water) [1, 0, 2] \<and> invariant topology_water
      \<and> (numAtomsTraj topology_water = 0 \<or> numAtoms topology_water \<le> numAtomsTraj topology_water)"
    by code_simp
  have n': "numAtoms topology_water = 3" "numAtomsTraj topology_water = 0" by code_simp+
  have v': "atomf topology_water NAME ! ([1, 0, 2] ! 0) = StrV ''O''"
    "atomf topology_water NAME ! ([1, 0, 2] ! 1) = StrV ''H1''"
    "conn topology_water BONDS = [[1, 0], [1, 2]]"
    "conn topology_water ANGLES = [[0, 1, 2]]"
    "bondtype topology_water = [''1'', ''2'']"
    by code_simp+
  note T' = reorderAtoms_permutes [of topology_water "[1, 0, 2]", THEN conjunct1, rule_format, OF h']
  have f': "fst (reorderAtoms [1, 0, 2] topology_water) = None"
    using T' by simp
  have a0': "atomf (snd (reorderAtoms [1, 0, 2] topology_water)) NAME ! 0
        = atomf topology_water NAME ! ([1, 0, 2] ! 0)"
    using T' n' by simp
  have a1': "atomf (snd (reorderAtoms [1, 0, 2] topology_water)) NAME ! 1
        = atomf topology_water NAME ! ([1, 0, 2] ! 1)"
    using T' n' by simp
  have c': "crows (coords (snd (reorderAtoms [1, 0, 2] topology_water))) = []"
    using T' n' by simp
  have bt': "bondtype (snd (reorderAtoms [1, 0, 2] topology_water)) = bondtype topology_water"
    using T' by simp
  obtain iv where i: "\<forall>i < numAtoms topology_water. iv ! ([1, 0, 2] ! i) = i \<and> [1, 0, 2] ! (iv ! i) = i"
    and cn: "\<forall>f. conn (snd (reorderAtoms [1, 0, 2] topology_water)) f = map (map (\<lambda>e. iv ! e)) (conn topology_water f)"
    using T' by blast
  have i3: "iv ! ([1, 0, 2] ! j) = j" if "j < 3" for j
    using i n' that by simp
  have e: "iv ! 1 = 0" "iv ! 0 = 1" "iv ! 2 = 2"
    using i3 [of 0] i3 [of 1] i3 [of 2] by simp_all
  have b': "conn (snd (reorderAtoms [1, 0, 2] topology_water)) BONDS = [[0, 1], [0, 2]]"
    and g': "conn (snd (reorderAtoms [1, 0, 2] topology_water)) ANGLES = [[1, 0, 2]]"
    using cn e by (simp_all add: v')
  show ?thesis
    using a0 a4 c2 bt f' a0' a1' c' b' g' bt' unfolding v v' by simp
qed


subsection \<open>Merging trajectories: the active frame\<close>

text \<open>
  Claim C9 (the active frame is reset to 0 whenever the number of frames changes) fails
  on the code for the trajectory merge: \<^verbatim>\<open>_mergeTrajectories\<close> replaces the three frames
  of \<open>three_frames\<close>, the third of them active, by the single frame of \<open>one_frame\<close>
  and leaves \<^verbatim>\<open>_frame\<close> at 2, so the getter of \<^verbatim>\<open>frame\<close> raises afterwards.
  \<^verbatim>\<open>dropFrames\<close>, the other operation that changes the number of frames, ends with
  \<^verbatim>\<open>self.frame = 0  # Reset to 0 since the frames changed indexes\<close>.
\<close>

theorem merge_keeps_frame_pointer:
  "set_frame 2 (three_frames\<lparr>frame_ptr := 0\<rparr>) = (None, three_frames)
   \<and> numFrames three_frames = 3 \<and> get_frame three_frames = Ok 2
   \<and> fst (mergeTrajectories [one_frame] None False three_frames) = None
   \<and> numFrames (snd (mergeTrajectories [one_frame] None False three_frames)) = 1
   \<and> frame_ptr (snd (mergeTrajectories [one_frame] None False three_frames)) = 2
   \<and> get_frame (snd (mergeTrajectories [one_frame] None False three_frames)) = Raise FrameOutOfRange"
proof -
  have "set_frame 2 (three_frames\<lparr>frame_ptr := 0\<rparr>) = (None, three_frames)"
    by (simp add: set_frame_def three_frames_def numFrames_def)
  moreover have "numFrames three_frames = 3 \<and> get_frame three_frames = Ok 2
   \<and> fst (mergeTrajectories [one_frame] None False three_frames) = None
   \<and> numFrames (snd (mergeTrajectories [one_frame] None False three_frames)) = 1
   \<and> frame_ptr (snd (mergeTrajectories [one_frame] None False three_frames)) = 2
   \<and> get_frame (snd (mergeTrajectories [one_frame] None False three_frames)) = Raise FrameOutOfRange"
    by code_simp
  ultimately show ?thesis by simp
qed

text \<open>No call of \<^verbatim>\<open>_mergeTrajectories\<close> changes the frame pointer, whatever it merges.\<close>

lemma mergeTrajectories_frame_ptr:
  "frame_ptr (snd (mergeTrajectories newmols skip appending self)) = frame_ptr self"
  by (auto simp: mergeTrajectories_def emptyTraj_def Let_def split: result.splits option.splits if_splits)

subsection \<open>Merging topologies\<close>

text \<open>
  Claim C10 (after a topology merge that leaves bonds, \<^verbatim>\<open>bondtype\<close> has one entry per
  bond, and the entries are 'un' when the sources gave bonds without types) fails on the
  code: merging \<open>untyped_water\<close>, which has two bonds and no bond type, into
  \<open>typed_water\<close>, which has one bond of type '1', leaves two bonds and the one old
  type. The fill with 'un' runs only when \<^verbatim>\<open>bondtype\<close> is empty.
\<close>

theorem merge_leaves_stale_bondtype:
  "conn typed_water BONDS = [[0, 1]] \<and> bondtype typed_water = [''1'']
   \<and> conn untyped_water BONDS = [[0, 1], [0, 2]] \<and> bondtype untyped_water = []
   \<and> fst (mergeTopologies no_deduce [untyped_water] (Some [OwAll]) typed_water) = None
   \<and> conn (snd (mergeTopologies no_deduce [untyped_water] (Some [OwAll]) typed_water)) BONDS = [[0, 1], [0, 2]]
   \<and> bondtype (snd (mergeTopologies no_deduce [untyped_water] (Some [OwAll]) typed_water)) = [''1'']"
  by code_simp

text \<open>
  Claim C3 as stated fails where the existing names are all empty: \<open>unnamed_pair\<close> and
  \<open>named_pair\<close> have two atoms each and no name in common, and the merge completes
  and overwrites the names.
\<close>

theorem merge_overwrites_unnamed:
  "numAtoms unnamed_pair = 2 \<and> numAtoms named_pair = 2
   \<and> atomf unnamed_pair NAME = [StrV '''', StrV '''']
   \<and> atomf named_pair NAME = [StrV ''A'', StrV ''B'']
   \<and> set (atomf unnamed_pair NAME) \<inter> set (atomf named_pair NAME) = {}
   \<and> fst (mergeTopologies no_deduce [named_pair] (Some [OwAll]) unnamed_pair) = None
   \<and> atomf (snd (mergeTopologies no_deduce [named_pair] (Some [OwAll]) unnamed_pair)) NAME = [StrV ''A'', StrV ''B'']"
  by code_simp

lemma check_names_foreign:
  assumes "length (atomf self NAME) = numAtomsTopo mol"
    and "list_ex (\<lambda>n. n \<noteq> StrV '''') (atomf mol NAME)"
    and "list_ex (\<lambda>n. n \<noteq> StrV '''') (atomf self NAME)"
    and "\<not> set (atomf self NAME) \<subseteq> set (atomf mol NAME)"
  shows "check_names mol self = Raise (TopologyInconsistencyError DifferentNames)"
proof -
  have "atomf self NAME \<noteq> atomf mol NAME" using assms(4) by auto
  then show ?thesis using assms by (simp add: check_names_def)
qed

text \<open>
  Claim C3, as amended. Existing molecule and source have aligned columns and the same
  number of atoms, each has at least one non-empty atom name, and no name occurs in
  both: merging the source fails with \<^verbatim>\<open>TopologyInconsistencyError\<close> (StructuralMismatch)
  for the names, whatever the overwrite policy, and the existing molecule is returned as
  it was.
\<close>

theorem merge_rejects_foreign_names:
  assumes ca: "columns_aligned self" and cm: "columns_aligned mol"
    and n: "numAtoms self = numAtoms mol"
    and ns: "list_ex (\<lambda>n. n \<noteq> StrV '''') (atomf self NAME)"
    and nm: "list_ex (\<lambda>n. n \<noteq> StrV '''') (atomf mol NAME)"
    and dj: "set (atomf self NAME) \<inter> set (atomf mol NAME) = {}"
  shows "mergeTopologies deduce [mol] ow self = (Some (TopologyInconsistencyError DifferentNames), self)"
proof -
  have ls: "length (atomf self k) = numAtoms self" and lm: "length (atomf mol k) = numAtoms mol" for k
    using ca cm by (simp_all add: columns_alignedD)
  have ne: "atomf self NAME \<noteq> []" using ns by auto
  then have pos: "0 < numAtoms self" using ls [of NAME] by (metis length_greater_0_conv)
  have ts: "numAtomsTopo self \<noteq> 0" and tm: "numAtomsTopo mol \<noteq> 0"
    and eq: "length (atomf self NAME) = numAtomsTopo mol"
    using pos n ls lm by (simp_all add: numAtomsTopo_def)
  have "\<not> set (atomf self NAME) \<subseteq> set (atomf mol NAME)"
    using dj ne by (cases "atomf self NAME") auto
  then have "check_names mol self = Raise (TopologyInconsistencyError DifferentNames)"
    using check_names_foreign [OF eq nm ns] by simp
  then show ?thesis
    using ts tm by (simp add: mergeTopologies_def merge_topology_def)
qed

text \<open>The theorem at \<open>named_pair\<close> (A, B) and the source \<open>other_pair\<close> (C, D).\<close>

theorem merge_rejects_foreign_names_witness:
  "mergeTopologies no_deduce [other_pair] (Some [OwAll]) named_pair
     = (Some (TopologyInconsistencyError DifferentNames), named_pair)"
proof -
  have "columns_aligned named_pair" "columns_aligned other_pair"
    "numAtoms named_pair = numAtoms other_pair"
    "list_ex (\<lambda>n. n \<noteq> StrV '''') (atomf named_pair NAME)"
    "list_ex (\<lambda>n. n \<noteq> StrV '''') (atomf other_pair NAME)"
    "set (atomf named_pair NAME) \<inter> set (atomf other_pair NAME) = {}"
    by code_simp+
  then show ?thesis by (rule merge_rejects_foreign_names)
qed

subsection \<open>Unique bonds\<close>

lemma set_order_reversed_set: "set_order reversed_set"
  by (simp add: set_order_def reversed_set_def)

lemma sorting_order_stable_argsort: "sorting_order stable_argsort"
  by (simp add: sorting_order_def stable_argsort_def)

lemma argsort_set:
  assumes "sorting_order argsort"
  shows "set (argsort ks) = {0..<length ks}"
proof -
  have "mset (argsort ks) = mset [0..<length ks]"
    using assms by (simp add: sorting_order_def)
  then have "set (argsort ks) = set [0..<length ks]"
    by (rule mset_eq_setD)
  then show ?thesis by simp
qed

lemma argsort_rows:
  assumes ao: "sorting_order argsort"
  shows "mset (map (\<lambda>i. U ! i) (argsort (map f U))) = mset U"
    and "sorted (map f (map (\<lambda>i. U ! i) (argsort (map f U))))"
proof -
  let ?idx = "argsort (map f U)"
  have m: "mset ?idx = mset [0..<length U]" and s: "sorted (map (\<lambda>i. map f U ! i) ?idx)"
    using ao by (simp_all add: sorting_order_def)
  have "mset (map (\<lambda>i. U ! i) ?idx) = image_mset (\<lambda>i. U ! i) (mset ?idx)" by simp
  also have "\<dots> = mset (map (\<lambda>i. U ! i) [0..<length U])" unfolding m by simp
  also have "\<dots> = mset U" by (simp add: map_nth)
  finally show "mset (map (\<lambda>i. U ! i) ?idx) = mset U" .
  have e: "map f (map (\<lambda>i. U ! i) ?idx) = map (\<lambda>i. map f U ! i) ?idx"
    using argsort_set [OF ao, of "map f U"] by simp
  show "sorted (map f (map (\<lambda>i. U ! i) ?idx))" unfolding e by (rule s)
qed

lemma bond_rows_typed:
  "ts \<noteq> [] \<Longrightarrow> bond_rows bs (Some ts) = map (\<lambda>(bb, bt). (bb, Some bt)) (zip bs ts)"
  by (simp add: bond_rows_def)

lemma bond_rows_untyped: "bond_rows bs None = map (\<lambda>bb. (bb, None)) bs"
  by (simp add: bond_rows_def)

lemma rebuild_typed:
  assumes "list_all (\<lambda>r. snd r \<noteq> None) R"
  shows "map (\<lambda>(bb, bt). (bb, Some bt)) (zip (map fst R) (map (\<lambda>r. the (snd r)) R)) = R"
  using assms by (induction R) auto

lemma rebuild_untyped:
  assumes "list_all (\<lambda>r. snd r = None) R"
  shows "map (\<lambda>bb. (bb, None)) (map fst R) = R"
  using assms by (induction R) (auto simp: prod_eq_iff)

text \<open>
  What the function computes, for the two parameters as they are known to behave: the
  rows \<open>R\<close> below are the result, pairs and types side by side.
\<close>

lemma calculateUniqueBonds_rows:
  assumes so: "set_order pyset" and ao: "sorting_order argsort"
    and ne: "bonds \<noteq> []"
    and ty: "btypes = None \<or> btypes = Some [] \<or> length (the btypes) = length bonds"
    and U_def: "U = pyset (map (\<lambda>r. (sort_row (fst r), snd r)) (bond_rows bonds btypes))"
    and R_def: "R = map (\<lambda>i. U ! i) (argsort (map (\<lambda>r. fst (fst r)) U))"
  shows "calculateUniqueBonds pyset argsort bonds btypes =
           Ok (map fst R, if btypes = None \<or> btypes = Some [] then None else Some (map (\<lambda>r. the (snd r)) R))"
    and "bond_rows (map fst R) (if btypes = None \<or> btypes = Some [] then None else Some (map (\<lambda>r. the (snd r)) R)) = R"
    and "mset R = mset U" and "R \<noteq> []"
proof -
  have su: "set U = (\<lambda>r. (sort_row (fst r), snd r)) ` set (bond_rows bonds btypes)"
    using so by (simp add: U_def set_order_def)
  show mr: "mset R = mset U"
    unfolding R_def by (rule argsort_rows(1) [OF ao])
  have sr: "set R = set U" using mr by (rule mset_eq_setD)
  have ks: "map fst (map fst U) = map (\<lambda>r. fst (fst r)) U" by simp
  show cu: "calculateUniqueBonds pyset argsort bonds btypes =
           Ok (map fst R, if btypes = None \<or> btypes = Some [] then None else Some (map (\<lambda>r. the (snd r)) R))"
  proof (cases "btypes = None \<or> btypes = Some []")
    case True
    then have b: "bond_rows bonds btypes = map (\<lambda>bb. (bb, None)) bonds"
      by (auto simp: bond_rows_def)
    have u: "pyset (map (\<lambda>bb. (sort_row bb, None)) bonds) = U"
      by (simp add: U_def b comp_def)
    have "U \<noteq> []" using su b ne by auto
    moreover have "map (\<lambda>i. map fst U ! i) (argsort (map (\<lambda>r. fst (fst r)) U)) = map fst R"
      using argsort_set [OF ao, of "map (\<lambda>r. fst (fst r)) U"] by (simp add: R_def)
    ultimately show ?thesis
      using True by (auto simp: calculateUniqueBonds_def u ks Let_def comp_def)
  next
    case False
    then obtain ts where t: "btypes = Some ts" "ts \<noteq> []" "length ts = length bonds"
      using ty by (cases btypes) auto
    have b: "bond_rows bonds btypes = map (\<lambda>(bb, bt). (bb, Some bt)) (zip bonds ts)"
      using t by (simp add: bond_rows_def)
    have u: "pyset (map (\<lambda>(bb, bt). (sort_row bb, Some bt)) (zip bonds ts)) = U"
      by (simp add: U_def b comp_def case_prod_unfold)
    have "map (\<lambda>i. map fst U ! i) (argsort (map (\<lambda>r. fst (fst r)) U)) = map fst R"
      "map (\<lambda>i. map (\<lambda>r. the (snd r)) U ! i) (argsort (map (\<lambda>r. fst (fst r)) U)) = map (\<lambda>r. the (snd r)) R"
      using argsort_set [OF ao, of "map (\<lambda>r. fst (fst r)) U"] by (simp_all add: R_def)
    then show ?thesis
      using False t by (simp add: calculateUniqueBonds_def u ks Let_def comp_def)
  qed
  have "bond_rows bonds btypes \<noteq> []"
    using ne ty by (cases btypes) (auto simp: bond_rows_def)
  then have "U \<noteq> []" using su by auto
  then show rn: "R \<noteq> []" using mr by auto
  show "bond_rows (map fst R) (if btypes = None \<or> btypes = Some [] then None else Some (map (\<lambda>r. the (snd r)) R)) = R"
  proof (cases "btypes = None \<or> btypes = Some []")
    case True
    then have "bond_rows bonds btypes = map (\<lambda>bb. (bb, None)) bonds"
      by (auto simp: bond_rows_def)
    then have "list_all (\<lambda>r. snd r = None) R"
      using su sr by (auto simp: list_all_iff)
    then have "map (\<lambda>bb. (bb, None)) (map fst R) = R" by (rule rebuild_untyped)
    then show ?thesis using True by (simp add: bond_rows_untyped)
  next
    case False
    then obtain ts where t: "btypes = Some ts" "ts \<noteq> []" "length ts = length bonds"
      using ty by (cases btypes) auto
    have "bond_rows bonds btypes = map (\<lambda>(bb, bt). (bb, Some bt)) (zip bonds ts)"
      using t by (simp add: bond_rows_def)
    then have "list_all (\<lambda>r. snd r \<noteq> None) R"
      using su sr by (auto simp: list_all_iff)
    then have "map (\<lambda>(bb, bt). (bb, Some bt)) (zip (map fst R) (map (\<lambda>r. the (snd r)) R)) = R"
      by (rule rebuild_typed)
    then show ?thesis using False rn by (auto simp: bond_rows_typed)
  qed
qed

lemma sort_row_ordered: "fst (sort_row b) \<le> snd (sort_row b)"
  by (simp add: sort_row_def)

lemma sort_row_idem: "sort_row (sort_row b) = sort_row b"
  by (simp add: sort_row_def)

text \<open>
  Claim C6, as amended. The set lists each of its rows once, in some order, and
  \<^verbatim>\<open>np.argsort\<close> returns some sorting permutation. For a bond list with at least
  one row, and bond types that are absent, empty or one per bond,
  \<^verbatim>\<open>calculateUniqueBonds\<close> returns; in the rows it returns every pair is ordered
  (min, max), no (pair, type) tuple (or pair, when no types are supplied) occurs twice,
  the tuples are exactly the normalised tuples of the input, and the rows are sorted by
  first endpoint ascending. Applied to its own output the function returns the same rows,
  again sorted by first endpoint: the same output up to the order of rows that share a
  first endpoint.
\<close>

theorem calculateUniqueBonds_canonical:
  assumes so: "set_order pyset" and ao: "sorting_order argsort"
    and ne: "bonds \<noteq> []"
    and ty: "btypes = None \<or> btypes = Some [] \<or> length (the btypes) = length bonds"
  shows "\<exists>bs ts. calculateUniqueBonds pyset argsort bonds btypes = Ok (bs, ts)
      \<and> list_all (\<lambda>r. fst (fst r) \<le> snd (fst r)) (bond_rows bs ts)
      \<and> distinct (bond_rows bs ts)
      \<and> set (bond_rows bs ts) = (\<lambda>r. (sort_row (fst r), snd r)) ` set (bond_rows bonds btypes)
      \<and> sorted (map (\<lambda>r. fst (fst r)) (bond_rows bs ts))
      \<and> (\<exists>bs' ts'. calculateUniqueBonds pyset argsort bs ts = Ok (bs', ts')
            \<and> mset (bond_rows bs' ts') = mset (bond_rows bs ts)
            \<and> sorted (map (\<lambda>r. fst (fst r)) (bond_rows bs' ts')))"
proof -
  define norm where "norm = (\<lambda>r::bondrow. (sort_row (fst r), snd r))"
  define U where "U = pyset (map norm (bond_rows bonds btypes))"
  define R where "R = map (\<lambda>i. U ! i) (argsort (map (\<lambda>r. fst (fst r)) U))"
  define ts where "ts = (if btypes = None \<or> btypes = Some [] then None else Some (map (\<lambda>r. the (snd r)) R))"
  have U: "U = pyset (map (\<lambda>r. (sort_row (fst r), snd r)) (bond_rows bonds btypes))"
    by (simp add: U_def norm_def)
  have c1: "calculateUniqueBonds pyset argsort bonds btypes = Ok (map fst R, ts)"
    unfolding ts_def by (rule calculateUniqueBonds_rows(1) [OF so ao ne ty U R_def])
  have br: "bond_rows (map fst R) ts = R"
    unfolding ts_def by (rule calculateUniqueBonds_rows(2) [OF so ao ne ty U R_def])
  have mr: "mset R = mset U"
    by (rule calculateUniqueBonds_rows(3) [OF so ao ne ty U R_def])
  have rn: "R \<noteq> []"
    by (rule calculateUniqueBonds_rows(4) [OF so ao ne ty U R_def])
  have su: "set U = norm ` set (bond_rows bonds btypes)" and du: "distinct U"
    using so by (simp_all add: U_def set_order_def)
  have sr: "set R = set U" using mr by (rule mset_eq_setD)
  have dr: "distinct R" using mr du by (metis mset_eq_imp_distinct_iff)
  have srt: "sorted (map (\<lambda>r. fst (fst r)) R)"
    unfolding R_def by (rule argsort_rows(2) [OF ao])
  have ord: "list_all (\<lambda>r. fst (fst r) \<le> snd (fst r)) R"
    using sr su by (auto simp: list_all_iff norm_def sort_row_ordered)
  have nr: "map norm R = R"
  proof (rule map_idI)
    fix r assume "r \<in> set R"
    then obtain q where "r = norm q" using sr su by auto
    then show "norm r = r" by (simp add: norm_def sort_row_idem)
  qed
  define U2 where "U2 = pyset (map norm (bond_rows (map fst R) ts))"
  define R2 where "R2 = map (\<lambda>i. U2 ! i) (argsort (map (\<lambda>r. fst (fst r)) U2))"
  define ts2 where "ts2 = (if ts = None \<or> ts = Some [] then None else Some (map (\<lambda>r. the (snd r)) R2))"
  have U2: "U2 = pyset (map (\<lambda>r. (sort_row (fst r), snd r)) (bond_rows (map fst R) ts))"
    by (simp add: U2_def norm_def)
  have ne2: "map fst R \<noteq> []" using rn by simp
  have ty2: "ts = None \<or> ts = Some [] \<or> length (the ts) = length (map fst R)"
    by (simp add: ts_def)
  have c2: "calculateUniqueBonds pyset argsort (map fst R) ts = Ok (map fst R2, ts2)"
    unfolding ts2_def by (rule calculateUniqueBonds_rows(1) [OF so ao ne2 ty2 U2 R2_def])
  have br2: "bond_rows (map fst R2) ts2 = R2"
    unfolding ts2_def by (rule calculateUniqueBonds_rows(2) [OF so ao ne2 ty2 U2 R2_def])
  have mr2: "mset R2 = mset U2"
    by (rule calculateUniqueBonds_rows(3) [OF so ao ne2 ty2 U2 R2_def])
  have srt2: "sorted (map (\<lambda>r. fst (fst r)) R2)"
    unfolding R2_def by (rule argsort_rows(2) [OF ao])
  have "U2 = pyset R" by (simp add: U2_def br nr)
  then have "set U2 = set R" and "distinct U2"
    using so by (simp_all add: set_order_def)
  then have "mset U2 = mset R"
    using dr by (simp add: set_eq_iff_mset_eq_distinct)
  then have m2: "mset (bond_rows (map fst R2) ts2) = mset (bond_rows (map fst R) ts)"
    using mr2 by (simp only: br br2)
  have s1: "set (bond_rows (map fst R) ts) = (\<lambda>r. (sort_row (fst r), snd r)) ` set (bond_rows bonds btypes)"
    using sr su by (simp only: br norm_def)
  show ?thesis
  proof (intro exI conjI)
    show "calculateUniqueBonds pyset argsort bonds btypes = Ok (map fst R, ts)" by (rule c1)
    show "list_all (\<lambda>r. fst (fst r) \<le> snd (fst r)) (bond_rows (map fst R) ts)"
      unfolding br by (rule ord)
    show "distinct (bond_rows (map fst R) ts)" unfolding br by (rule dr)
    show "set (bond_rows (map fst R) ts) = (\<lambda>r. (sort_row (fst r), snd r)) ` set (bond_rows bonds btypes)"
      by (rule s1)
    show "sorted (map (\<lambda>r. fst (fst r)) (bond_rows (map fst R) ts))" unfolding br by (rule srt)
    show "calculateUniqueBonds pyset argsort (map fst R) ts = Ok (map fst R2, ts2)" by (rule c2)
    show "mset (bond_rows (map fst R2) ts2) = mset (bond_rows (map fst R) ts)" by (rule m2)
    show "sorted (map (\<lambda>r. fst (fst r)) (bond_rows (map fst R2) ts2))"
      unfolding br2 by (rule srt2)
  qed
qed

text \<open>
  The theorem at the bonds \<open>(3, 0), (1, 0), (0, 3)\<close> of types 1, 2, 1, with the set
  listing its rows last first and the stable sorting permutation.
\<close>

theorem calculateUniqueBonds_canonical_witness:
  "set_order reversed_set \<and> sorting_order stable_argsort
   \<and> calculateUniqueBonds reversed_set stable_argsort [(3, 0), (1, 0), (0, 3)] (Some [''1'', ''2'', ''1''])
       = Ok ([(0, 3), (0, 1)], Some [''1'', ''2''])
   \<and> set (bond_rows [(0, 3), (0, 1)] (Some [''1'', ''2'']))
       = (\<lambda>r. (sort_row (fst r), snd r)) ` set (bond_rows [(3, 0), (1, 0), (0, 3)] (Some [''1'', ''2'', ''1'']))
   \<and> (\<exists>bs' ts'. calculateUniqueBonds reversed_set stable_argsort [(0, 3), (0, 1)] (Some [''1'', ''2'']) = Ok (bs', ts')
         \<and> mset (bond_rows bs' ts') = mset (bond_rows [(0, 3), (0, 1)] (Some [''1'', ''2''])))"
proof -
  have so: "set_order reversed_set" by (rule set_order_reversed_set)
  have ao: "sorting_order stable_argsort" by (rule sorting_order_stable_argsort)
  have ne: "[(3, 0), (1, 0), (0, 3)] \<noteq> ([] :: (nat \<times> nat) list)"
    by simp
  have ty: "Some [''1'', ''2'', ''1''] = None \<or> Some [''1'', ''2'', ''1''] = Some []
      \<or> length (the (Some [''1'', ''2'', ''1''])) = length [(3, 0), (1, 0), (0 :: nat, 3 :: nat)]"
    by simp
  have c: "calculateUniqueBonds reversed_set stable_argsort [(3, 0), (1, 0), (0, 3)] (Some [''1'', ''2'', ''1''])
       = Ok ([(0, 3), (0, 1)], Some [''1'', ''2''])"
    by code_simp
  obtain bs ts where r: "calculateUniqueBonds reversed_set stable_argsort [(3, 0), (1, 0), (0, 3)] (Some [''1'', ''2'', ''1''])
       = Ok (bs, ts)"
    and s: "set (bond_rows bs ts)
       = (\<lambda>r. (sort_row (fst r), snd r)) ` set (bond_rows [(3, 0), (1, 0), (0, 3)] (Some [''1'', ''2'', ''1'']))"
    and i: "\<exists>bs' ts'. calculateUniqueBonds reversed_set stable_argsort bs ts = Ok (bs', ts')
         \<and> mset (bond_rows bs' ts') = mset (bond_rows bs ts)"
    using calculateUniqueBonds_canonical [OF so ao ne ty] by blast
  have "bs = [(0, 3), (0, 1)]" and "ts = Some [''1'', ''2'']"
    using r c by simp_all
  then show ?thesis using so ao c s i by simp
qed

text \<open>
  Claim C6 as stated fails on rows that share a first endpoint. With the rows of the set
  listed last first, an order Python allows, the bonds \<open>(0, 6), (0, 17)\<close> come back as
  \<open>(0, 17), (0, 6)\<close> and the bonds \<open>(0, 17), (0, 6)\<close> as \<open>(0, 6), (0, 17)\<close>: the
  sort by first endpoint does not decide between such rows, so the result follows the
  order of the input, and the first output, given back to the function, does not return
  unchanged.
\<close>

theorem calculateUniqueBonds_order_dependent:
  "set_order reversed_set \<and> sorting_order stable_argsort
   \<and> calculateUniqueBonds reversed_set stable_argsort [(0, 6), (0, 17)] None = Ok ([(0, 17), (0, 6)], None)
   \<and> calculateUniqueBonds reversed_set stable_argsort [(0, 17), (0, 6)] None = Ok ([(0, 6), (0, 17)], None)"
proof -
  have "set_order reversed_set" by (rule set_order_reversed_set)
  moreover have "sorting_order stable_argsort" by (rule sorting_order_stable_argsort)
  moreover have "calculateUniqueBonds reversed_set stable_argsort [(0, 6), (0, 17)] None = Ok ([(0, 17), (0, 6)], None)"
    by code_simp
  moreover have "calculateUniqueBonds reversed_set stable_argsort [(0, 17), (0, 6)] None = Ok ([(0, 6), (0, 17)], None)"
    by code_simp
  ultimately show ?thesis by blast
qed

end
